theory Spec2Isabelle
  imports Complex_Main
begin

section \<open>Data model of the onboarding orchestrator\<close>

text \<open>
  The orchestrator is the React provider \<^verbatim>\<open>OnboardingProvider\<close> (OnboardingContext) with
  the two primitives \<^verbatim>\<open>waitForChain\<close> / \<^verbatim>\<open>ensureChainSelected\<close> (chain-switcher) and
  \<^verbatim>\<open>verifyModuleEnabled\<close> (safemodule-verifier).  React state becomes a record that
  is passed through and returned; every \<^verbatim>\<open>setProgress((prev) => ...)\<close> is a functional
  update of that record.  The collaborators (wallet hooks, HTTP, chain reads) are fields of
  an environment record; a promise either resolves with a value or rejects with a thrown
  value.  The state also carries the list of collaborator calls made so far, in order.
\<close>

datatype OnboardingStepStatus = Idle | Pending | Success | Error

text \<open>
  \<^verbatim>\<open>ChainProgress\<close>.  A status is optional because \<^verbatim>\<open>{ ...prev[chainKey], f: v }\<close> on
  a missing entry yields an object in which the other fields are undefined.
\<close>

record ChainProgress =
  walletCreate :: "OnboardingStepStatus option"
  moduleSign :: "OnboardingStepStatus option"
  moduleEnable :: "OnboardingStepStatus option"
  moduleVerify :: "OnboardingStepStatus option"
  error :: "string option"
  safeAddress :: "string option"

record ChainInfo =
  id' :: string
  name :: string
  chainId :: nat
  isTestnet :: bool

record UserData =
  user_id :: string
  address :: string
  email :: string
  onboarded_at :: string
  safe_wallet_address_testnet :: "string option"
  safe_wallet_address_mainnet :: "string option"

text \<open>
  What \<^verbatim>\<open>data.data\<close> of the \<^verbatim>\<open>/users/me\<close> body, and with it the result of
  \<^verbatim>\<open>fetchUserData\<close>, can be: \<^verbatim>\<open>null\<close>, \<^verbatim>\<open>undefined\<close> (the body has no such key) or
  a record.  The two are kept apart because \<^verbatim>\<open>checkUser\<close> tests \<^verbatim>\<open>user === null\<close>.
\<close>

datatype fetchedUser = JsNull | JsUndefined | JsUser UserData

text \<open>\<^verbatim>\<open>user?.safe_wallet_address_testnet\<close> and \<^verbatim>\<open>user?.safe_wallet_address_mainnet\<close>\<close>

definition testnetWallet :: "fetchedUser \<Rightarrow> string option" where
  "testnetWallet user = (case user of JsUser u \<Rightarrow> safe_wallet_address_testnet u | _ \<Rightarrow> None)"

definition mainnetWallet :: "fetchedUser \<Rightarrow> string option" where
  "mainnetWallet user = (case user of JsUser u \<Rightarrow> safe_wallet_address_mainnet u | _ \<Rightarrow> None)"

text \<open>A thrown value is an \<^verbatim>\<open>Error\<close> with its message, or any other value with its
  \<^verbatim>\<open>String(...)\<close> rendering.\<close>

datatype thrown = ErrorObj string | NonError string

datatype 'a outcome = Resolves 'a | Rejects thrown

record CreateSafeResult =
  cr_success :: bool
  cr_safeAddress :: "string option"
  cr_error :: "string option"

record SignEnableModuleResult =
  threshold :: nat
  owners :: "string list"
  safeTxHash :: string

record SignResult =
  sr_success :: bool
  sr_data :: "SignEnableModuleResult option"
  sr_error :: "string option"

record SubmitResult =
  sb_success :: bool
  sb_error :: "string option"

record ApiBody =
  body_success :: bool
  body_data :: fetchedUser

record Response =
  ok :: bool
  json :: "ApiBody outcome"

text \<open>Identifier accepted by \<^verbatim>\<open>retryChain\<close>: \<^verbatim>\<open>string | number\<close>.\<close>

datatype chain_identifier = IdString string | IdNumber nat

text \<open>Collaborator calls, as they are issued.  \<^verbatim>\<open>SetTimeout d\<close> is a sleep of \<open>d\<close> ms.\<close>

datatype call =
    CallFetchUserData
  | CallGetPrivyAccessToken
  | CallFetchUsersMe string
  | CallCreateSafeWallet string nat
  | CallSwitchChain nat
  | CallSignEnableModule "string option" nat
  | CallSubmitEnableModule
  | CallIsModuleEnabled "string option" string nat
  | SetTimeout rat

text \<open>
  The environment: the values of the hooks at the render that created the callbacks, and
  the behaviour of each collaborator.  \<open>isModuleEnabled env safe module k\<close> is the
  outcome of the \<open>k\<close>-th on-chain read (counted from 0) within one verification;
  \<open>currentProviderChainId env t\<close> is the chain the provider reports \<open>t\<close> ms after a
  wait began.  \<open>getChain\<close> and \<open>getSafeModuleAddress\<close> are the registry lookups,
  whose tables are configuration.  \<open>embeddedWallet\<close> and \<open>ethereumProvider\<close> say
  whether the hook supplied the object or null.  A collaborator's outcome is a function of
  the arguments of the call.
\<close>

record env =
  ready :: bool
  authenticated :: bool
  walletAddress :: "string option"
  embeddedWallet :: bool
  ethereumProvider :: bool
  getPrivyAccessToken :: "string option outcome"
  fetchUsersMe :: "string \<Rightarrow> Response outcome"
  createSafeWallet :: "string \<Rightarrow> nat \<Rightarrow> CreateSafeResult outcome"
  switchChain :: "nat \<Rightarrow> unit outcome"
  currentProviderChainId :: "nat \<Rightarrow> nat option"
  signEnableModule :: "string option \<Rightarrow> nat \<Rightarrow> SignResult outcome"
  submitEnableModule :: "SubmitResult outcome"
  getSafeModuleAddress :: "nat \<Rightarrow> string option"
  isModuleEnabled :: "string option \<Rightarrow> string \<Rightarrow> nat \<Rightarrow> bool outcome"
  getChain :: "nat \<Rightarrow> ChainInfo option"

text \<open>The provider's state (\<^verbatim>\<open>useState\<close> cells) and the call log.\<close>

record session =
  isModeValid :: "bool option"
  walletChoiceCompleted :: bool
  needsOnboarding :: bool
  isOnboarding :: bool
  isCheckingUser :: bool
  progress :: "string \<rightharpoonup> ChainProgress"
  currentSigningChain :: "string option"
  calls :: "call list"

section \<open>Small helpers\<close>

text \<open>Decimal rendering of a number inside a template string.\<close>

definition digitChar :: "nat \<Rightarrow> char" where
  "digitChar n = ''0123456789'' ! n"

function showNat :: "nat \<Rightarrow> string" where
  "showNat n = (if n < 10 then [digitChar n] else showNat (n div 10) @ [digitChar (n mod 10)])"
  by pat_completeness auto
termination
  by (relation "measure (\<lambda>n. n)") auto

declare showNat.simps [simp del]

text \<open>\<^verbatim>\<open>e instanceof Error ? e.message : String(e)\<close>\<close>

definition messageOrString :: "thrown \<Rightarrow> string" where
  "messageOrString e = (case e of ErrorObj m \<Rightarrow> m | NonError s \<Rightarrow> s)"

text \<open>\<^verbatim>\<open>e instanceof Error ? e.message : "Unknown error"\<close>\<close>

definition messageOrUnknown :: "thrown \<Rightarrow> string" where
  "messageOrUnknown e = (case e of ErrorObj m \<Rightarrow> m | NonError s \<Rightarrow> ''Unknown error'')"

text \<open>Truthiness of an optional string: undefined, null and the empty string are falsy.\<close>

definition truthy :: "string option \<Rightarrow> bool" where
  "truthy s = (case s of None \<Rightarrow> False | Some v \<Rightarrow> v \<noteq> [])"

text \<open>\<^verbatim>\<open>{ ...prev[chainKey] }\<close>: the entry, or the empty object when there is none.\<close>

definition emptyProgress :: ChainProgress where
  "emptyProgress = \<lparr>walletCreate = None, moduleSign = None, moduleEnable = None,
     moduleVerify = None, error = None, safeAddress = None\<rparr>"

definition spread :: "(string \<rightharpoonup> ChainProgress) \<Rightarrow> string \<Rightarrow> ChainProgress" where
  "spread prev k = (case prev k of None \<Rightarrow> emptyProgress | Some p \<Rightarrow> p)"

text \<open>\<^verbatim>\<open>setProgress((prev) => ({ ...prev, [chainKey]: f({ ...prev[chainKey] }) }))\<close>\<close>

definition setProgress :: "string \<Rightarrow> (ChainProgress \<Rightarrow> ChainProgress) \<Rightarrow> session \<Rightarrow> session" where
  "setProgress chainKey f st =
     st\<lparr>progress := (progress st)(chainKey \<mapsto> f (spread (progress st) chainKey))\<rparr>"

definition logCall :: "call \<Rightarrow> session \<Rightarrow> session" where
  "logCall c st = st\<lparr>calls := calls st @ [c]\<rparr>"

definition logCalls :: "call list \<Rightarrow> session \<Rightarrow> session" where
  "logCalls cs st = st\<lparr>calls := calls st @ cs\<rparr>"

section \<open>The chain-switch primitives\<close>

text \<open>
  \<^verbatim>\<open>ensureChainSelected(embeddedWallet, targetChainId)\<close>: throws when there is no wallet,
  and rethrows a failed switch with an enhanced message.  The result is the thrown value
  (if any) and the calls made.
\<close>

definition ensureChainSelected :: "env \<Rightarrow> nat \<Rightarrow> thrown option \<times> call list" where
  "ensureChainSelected env targetChainId =
     (if \<not> embeddedWallet env then (Some (ErrorObj ''Embedded wallet not available''), [])
      else case switchChain env targetChainId of
             Resolves _ \<Rightarrow> (None, [CallSwitchChain targetChainId])
           | Rejects e \<Rightarrow>
               (Some (ErrorObj (''Failed to switch to chain '' @ showNat targetChainId @ '': ''
                                 @ messageOrString e)),
                [CallSwitchChain targetChainId]))"

text \<open>
  \<^verbatim>\<open>waitForChain(getCurrentChainId, targetChainId, timeoutMs)\<close>.  The only use of the clock
  is \<^verbatim>\<open>Date.now() - startTime\<close>, so the loop variable is the elapsed time; each turn
  sleeps 100 ms.  The getter is read at the current elapsed time.
\<close>

function waitLoop :: "(nat \<Rightarrow> nat option) \<Rightarrow> nat \<Rightarrow> nat \<Rightarrow> nat \<Rightarrow> thrown option \<times> call list" where
  "waitLoop getCurrentChainId targetChainId timeoutMs elapsed =
     (if elapsed < timeoutMs then
        (if getCurrentChainId elapsed = Some targetChainId then (None, [])
         else (case waitLoop getCurrentChainId targetChainId timeoutMs (elapsed + 100) of
                 (r, cs) \<Rightarrow> (r, SetTimeout 100 # cs)))
      else (Some (ErrorObj (''Timeout waiting for chain '' @ showNat targetChainId
                             @ '' to become active'')), []))"
  by pat_completeness auto
termination
  by (relation "measure (\<lambda>(g, t, timeoutMs, elapsed). timeoutMs - elapsed)") auto

declare waitLoop.simps [simp del]

definition waitForChain :: "(nat \<Rightarrow> nat option) \<Rightarrow> nat \<Rightarrow> nat \<Rightarrow> thrown option \<times> call list" where
  "waitForChain getCurrentChainId targetChainId timeoutMs =
     waitLoop getCurrentChainId targetChainId timeoutMs 0"

section \<open>The verification primitive\<close>

text \<open>
  \<^verbatim>\<open>verifyModuleEnabled(safeAddress, chainId, provider, maxRetries, delayMs)\<close>.  The loop
  \<^verbatim>\<open>for (attempt = 0; attempt < maxRetries; attempt++)\<close> returns the first read that
  resolves; a read that throws is remembered in \<open>lastError\<close> (its message) and, unless it
  was the last attempt, followed by a sleep of \<open>delayMs * 1.5 ^ attempt\<close> ms.
\<close>

function verifyLoop ::
  "env \<Rightarrow> string option \<Rightarrow> string \<Rightarrow> nat \<Rightarrow> rat \<Rightarrow> nat \<Rightarrow> string option \<Rightarrow> (thrown + bool) \<times> call list" where
  "verifyLoop env safeAddr moduleAddress maxRetries delayMs attempt lastError =
     (if attempt < maxRetries then
        (case isModuleEnabled env safeAddr moduleAddress attempt of
           Resolves isEnabled \<Rightarrow>
             (Inr isEnabled, [CallIsModuleEnabled safeAddr moduleAddress attempt])
         | Rejects e \<Rightarrow>
             (case verifyLoop env safeAddr moduleAddress maxRetries delayMs (attempt + 1)
                     (Some (messageOrString e)) of
                (r, cs) \<Rightarrow>
                  (r, CallIsModuleEnabled safeAddr moduleAddress attempt #
                      (if attempt + 1 < maxRetries then [SetTimeout (delayMs * (3 / 2) ^ attempt)]
                       else []) @ cs)))
      else (Inl (ErrorObj (''Failed to verify module status after '' @ showNat maxRetries
                            @ '' attempts: ''
                            @ (if truthy lastError then the lastError else ''Unknown error''))),
            []))"
  by pat_completeness auto
termination
  by (relation "measure (\<lambda>(env, s, m, maxRetries, d, attempt, l). maxRetries - attempt)") auto

declare verifyLoop.simps [simp del]

definition verifyModuleEnabled ::
  "env \<Rightarrow> string option \<Rightarrow> nat \<Rightarrow> nat \<Rightarrow> rat \<Rightarrow> (thrown + bool) \<times> call list" where
  "verifyModuleEnabled env safeAddr chainId' maxRetries delayMs =
     (let moduleAddress = getSafeModuleAddress env chainId' in
      if \<not> truthy moduleAddress then
        (Inl (ErrorObj (''Module address not configured for chain '' @ showNat chainId')), [])
      else verifyLoop env safeAddr (the moduleAddress) maxRetries delayMs 0 None)"

section \<open>The user-record fetch\<close>

text \<open>
  \<^verbatim>\<open>fetchUserData\<close>: every way of not getting a body ends in \<^verbatim>\<open>return null\<close>; a body
  is answered by \<^verbatim>\<open>data.success ? data.data : null\<close>.  \<open>CallFetchUserData\<close> marks the
  invocation itself.
\<close>

definition fetchUserData :: "env \<Rightarrow> fetchedUser \<times> call list" where
  "fetchUserData env =
     (if \<not> authenticated env then (JsNull, [CallFetchUserData])
      else case getPrivyAccessToken env of
             Rejects e \<Rightarrow> (JsNull, [CallFetchUserData, CallGetPrivyAccessToken])
           | Resolves accessToken \<Rightarrow>
               if \<not> truthy accessToken then (JsNull, [CallFetchUserData, CallGetPrivyAccessToken])
               else
                 (let cs = [CallFetchUserData, CallGetPrivyAccessToken,
                            CallFetchUsersMe (the accessToken)] in
                  case fetchUsersMe env (the accessToken) of
                    Rejects e \<Rightarrow> (JsNull, cs)
                  | Resolves response \<Rightarrow>
                      if \<not> ok response then (JsNull, cs)
                      else case json response of
                             Rejects e \<Rightarrow> (JsNull, cs)
                           | Resolves data \<Rightarrow>
                               (if body_success data then body_data data else JsNull, cs)))"

section \<open>Process one chain\<close>

definition idleProgress :: ChainProgress where
  "idleProgress = \<lparr>walletCreate = Some Idle, moduleSign = Some Idle, moduleEnable = Some Idle,
     moduleVerify = Some Idle, error = None, safeAddress = None\<rparr>"

definition successProgress :: ChainProgress where
  "successProgress = \<lparr>walletCreate = Some Success, moduleSign = Some Success,
     moduleEnable = Some Success, moduleVerify = Some Success, error = None, safeAddress = None\<rparr>"

text \<open>\<^verbatim>\<open>initializeProgress(chains)\<close>\<close>

definition initializeProgress :: "ChainInfo list \<Rightarrow> (string \<rightharpoonup> ChainProgress)" where
  "initializeProgress chainsToSetup =
     fold (\<lambda>chain prog. prog(id' chain \<mapsto> idleProgress)) chainsToSetup Map.empty"

text \<open>The outer \<^verbatim>\<open>catch (error)\<close> of \<^verbatim>\<open>processChain\<close>: only the message is recorded.\<close>

definition outerCatch :: "string \<Rightarrow> thrown \<Rightarrow> session \<Rightarrow> bool \<times> session" where
  "outerCatch chainKey e st =
     (False, setProgress chainKey (\<lambda>p. p\<lparr>error := Some (messageOrUnknown e)\<rparr>) st)"

text \<open>The inner \<^verbatim>\<open>try\<close> block of step 2: switch, then wait with the getter
  \<^verbatim>\<open>() => numericChainId\<close> and a timeout of 10000 ms.\<close>

definition switchAndWait :: "env \<Rightarrow> nat \<Rightarrow> thrown option \<times> call list" where
  "switchAndWait env numericChainId =
     (case ensureChainSelected env numericChainId of
        (Some e, cs) \<Rightarrow> (Some e, cs)
      | (None, cs) \<Rightarrow>
          (case waitForChain (\<lambda>_. Some numericChainId) numericChainId 10000 of
             (r, cs') \<Rightarrow> (r, cs @ cs')))"

text \<open>\<^verbatim>\<open>signResult.data && !signResult.data.safeTxHash\<close>\<close>

definition alreadyEnabled :: "SignResult \<Rightarrow> bool" where
  "alreadyEnabled signResult =
     (case sr_data signResult of None \<Rightarrow> False | Some d \<Rightarrow> safeTxHash d = [])"

text \<open>The \<^verbatim>\<open>try\<close> block of step 5 up to the result of the verification.\<close>

definition verifyAttempt :: "env \<Rightarrow> string option \<Rightarrow> nat \<Rightarrow> (thrown + bool) \<times> call list" where
  "verifyAttempt env safeAddr numericChainId =
     (if \<not> ethereumProvider env then (Inl (ErrorObj ''Ethereum provider not available''), [])
      else verifyModuleEnabled env safeAddr numericChainId 5 2000)"

text \<open>\<^verbatim>\<open>walletAddress || ""\<close>\<close>

definition ownerAddress :: "env \<Rightarrow> string" where
  "ownerAddress env = (case walletAddress env of None \<Rightarrow> [] | Some a \<Rightarrow> a)"

definition processChain :: "env \<Rightarrow> ChainInfo \<Rightarrow> session \<Rightarrow> bool \<times> session" where
  "processChain env chain st0 =
    (let chainKey = id' chain;
         numericChainId = chainId chain;
         owner = ownerAddress env;
         st1 = logCall (CallCreateSafeWallet owner numericChainId)
                 (setProgress chainKey (\<lambda>p. p\<lparr>walletCreate := Some Pending, error := None\<rparr>) st0)
     in case createSafeWallet env owner numericChainId of
          Rejects e \<Rightarrow> outerCatch chainKey e st1
        | Resolves createResult \<Rightarrow>
          if \<not> cr_success createResult then
            (False, setProgress chainKey
                      (\<lambda>p. p\<lparr>walletCreate := Some Error, error := cr_error createResult\<rparr>) st1)
          else
           (let safeAddr = cr_safeAddress createResult;
                st2 = setProgress chainKey
                        (\<lambda>p. p\<lparr>walletCreate := Some Success, safeAddress := safeAddr\<rparr>) st1;
                st3 = (setProgress chainKey (\<lambda>p. p\<lparr>moduleSign := Some Pending\<rparr>) st2)
                        \<lparr>currentSigningChain := Some chainKey\<rparr>
            in case switchAndWait env numericChainId of
                 (Some switchError, cs) \<Rightarrow>
                   (False, (setProgress chainKey
                              (\<lambda>p. p\<lparr>moduleSign := Some Error,
                                       error := Some (''Failed to switch to '' @ name chain @ '': ''
                                                      @ messageOrString switchError)\<rparr>)
                              (logCalls cs st3))\<lparr>currentSigningChain := None\<rparr>)
               | (None, cs) \<Rightarrow>
                  (let st4 = logCall (CallSignEnableModule safeAddr numericChainId) (logCalls cs st3)
                   in case signEnableModule env safeAddr numericChainId of
                        Rejects e \<Rightarrow> outerCatch chainKey e st4
                      | Resolves signResult \<Rightarrow>
                        if \<not> sr_success signResult then
                          (False, (setProgress chainKey
                                     (\<lambda>p. p\<lparr>moduleSign := Some Error, error := sr_error signResult\<rparr>)
                                     st4)\<lparr>currentSigningChain := None\<rparr>)
                        else
                         (let st5 = (setProgress chainKey (\<lambda>p. p\<lparr>moduleSign := Some Success\<rparr>) st4)
                                      \<lparr>currentSigningChain := None\<rparr>
                          in if alreadyEnabled signResult then
                               (True, setProgress chainKey
                                        (\<lambda>p. p\<lparr>moduleEnable := Some Success,
                                                 moduleVerify := Some Success\<rparr>) st5)
                             else
                              (let st6 = logCall CallSubmitEnableModule
                                           (setProgress chainKey
                                              (\<lambda>p. p\<lparr>moduleEnable := Some Pending\<rparr>) st5)
                               in case submitEnableModule env of
                                    Rejects e \<Rightarrow> outerCatch chainKey e st6
                                  | Resolves submitResult \<Rightarrow>
                                    if \<not> sb_success submitResult then
                                      (False, setProgress chainKey
                                                (\<lambda>p. p\<lparr>moduleEnable := Some Error,
                                                         error := sb_error submitResult\<rparr>) st6)
                                    else
                                     (let st7 = setProgress chainKey
                                                  (\<lambda>p. p\<lparr>moduleEnable := Some Success\<rparr>) st6;
                                          st8 = setProgress chainKey
                                                  (\<lambda>p. p\<lparr>moduleVerify := Some Pending\<rparr>) st7
                                      in case verifyAttempt env safeAddr numericChainId of
                                           (Inl verifyError, cs') \<Rightarrow>
                                             (False, setProgress chainKey
                                                (\<lambda>p. p\<lparr>moduleVerify := Some Error,
                                                   error := Some (''Verification failed: ''
                                                      @ messageOrString verifyError)\<rparr>)
                                                (logCalls cs' st8))
                                         | (Inr isEnabled, cs') \<Rightarrow>
                                             if \<not> isEnabled then
                                               (False, setProgress chainKey
                                                  (\<lambda>p. p\<lparr>moduleVerify := Some Error,
                                                     error := Some ''Module not enabled after transaction''\<rparr>)
                                                  (logCalls cs' st8))
                                             else
                                               (True, setProgress chainKey
                                                  (\<lambda>p. p\<lparr>moduleVerify := Some Success\<rparr>)
                                                  (logCalls cs' st8))))))))"

section \<open>Determine the required chains\<close>

text \<open>The predicate of \<^verbatim>\<open>chainsToSetup.filter(...)\<close> in \<^verbatim>\<open>checkUser\<close>; \<open>c\<close> is the
  registry entry of the chain's numeric id, if there is one.\<close>

definition needsSetup :: "env \<Rightarrow> fetchedUser \<Rightarrow> ChainInfo \<Rightarrow> bool" where
  "needsSetup env user chain =
     (let c = getChain env (chainId chain) in
      if (case c of None \<Rightarrow> False | Some i \<Rightarrow> isTestnet i) then
        \<not> truthy (testnetWallet user)
      else if (case c of None \<Rightarrow> False | Some i \<Rightarrow> \<not> isTestnet i) then
        \<not> truthy (mainnetWallet user)
      else True)"

definition hasWallet :: "env \<Rightarrow> fetchedUser \<Rightarrow> ChainInfo \<Rightarrow> bool" where
  "hasWallet env user chain =
     (let c = getChain env (chainId chain) in
      if (case c of None \<Rightarrow> False | Some i \<Rightarrow> isTestnet i) then
        truthy (testnetWallet user)
      else if (case c of None \<Rightarrow> False | Some i \<Rightarrow> \<not> isTestnet i) then
        truthy (mainnetWallet user)
      else False)"

text \<open>The pre-fill loop over \<^verbatim>\<open>chainsToSetup\<close>.\<close>

definition prefill ::
  "env \<Rightarrow> fetchedUser \<Rightarrow> ChainInfo list \<Rightarrow> (string \<rightharpoonup> ChainProgress) \<Rightarrow> (string \<rightharpoonup> ChainProgress)" where
  "prefill env user chainsToSetup prev =
     fold (\<lambda>chain updated.
             if hasWallet env user chain then updated(id' chain \<mapsto> successProgress) else updated)
          chainsToSetup prev"

text \<open>The async function \<^verbatim>\<open>checkUser\<close>.  Only \<^verbatim>\<open>user === null\<close> is the new
  user; an undefined user goes on as an existing one whose wallet fields read undefined.  Its \<^verbatim>\<open>catch\<close> branch (which also sets
  needs-onboarding) has nothing to catch here: \<^verbatim>\<open>fetchUserData\<close> handles its own errors
  and the registry lookup is a table read.  The \<^verbatim>\<open>finally\<close> clears the checking flag.\<close>

definition checkUser :: "env \<Rightarrow> ChainInfo list \<Rightarrow> session \<Rightarrow> session" where
  "checkUser env chainsToSetup st =
     (case fetchUserData env of
        (user, cs) \<Rightarrow>
          (let st1 = logCalls cs (st\<lparr>isCheckingUser := True\<rparr>);
               st2 = (if user = JsNull then st1\<lparr>needsOnboarding := True\<rparr>
                      else if filter (needsSetup env user) chainsToSetup \<noteq> [] then
                        st1\<lparr>needsOnboarding := True,
                            progress := prefill env user chainsToSetup (progress st1)\<rparr>
                      else st1\<lparr>needsOnboarding := False\<rparr>)
           in st2\<lparr>isCheckingUser := False\<rparr>))"

text \<open>The effect around it: without ready authentication, a wallet address, a valid mode and
  a resolved wallet choice, it only clears the flag.\<close>

definition checkUserEffect :: "env \<Rightarrow> ChainInfo list \<Rightarrow> session \<Rightarrow> session" where
  "checkUserEffect env chainsToSetup st =
     (if \<not> ready env \<or> \<not> authenticated env \<or> \<not> truthy (walletAddress env)
         \<or> isModeValid st \<noteq> Some True \<or> \<not> walletChoiceCompleted st
      then st\<lparr>needsOnboarding := False\<rparr>
      else checkUser env chainsToSetup st)"

section \<open>Run full onboarding and retry one chain\<close>




text \<open>\<^verbatim>\<open>c.id === identifier || c.chainId === identifier\<close>\<close>

definition matchesIdentifier :: "chain_identifier \<Rightarrow> ChainInfo \<Rightarrow> bool" where
  "matchesIdentifier ident c =
     (case ident of IdString s \<Rightarrow> id' c = s | IdNumber n \<Rightarrow> chainId c = n)"

definition retryChain :: "env \<Rightarrow> ChainInfo list \<Rightarrow> chain_identifier \<Rightarrow> session \<Rightarrow> session" where
  "retryChain env chainsToSetup ident st =
     (case find (matchesIdentifier ident) chainsToSetup of
        None \<Rightarrow> st
      | Some chain \<Rightarrow>
          (case processChain env chain st of
             (success, st1) \<Rightarrow>
               if success then
                 (let st2 = logCalls (snd (fetchUserData env)) st1;
                      allComplete =
                        list_all (\<lambda>c. matchesIdentifier ident c \<or>
                                    (case progress st (id' c) of
                                       None \<Rightarrow> False
                                     | Some p \<Rightarrow> moduleVerify p = Some Success))
                                 chainsToSetup
                  in if allComplete then st2\<lparr>needsOnboarding := False, isOnboarding := False\<rparr>
                     else st2)
               else st1))"

section \<open>Path conditions of process-one-chain\<close>

text \<open>The signature request is reached when wallet creation resolves with success and the
  wallet provider switches chain; \<open>cr\<close> is the creation result.\<close>

definition reachesSign :: "env \<Rightarrow> ChainInfo \<Rightarrow> CreateSafeResult \<Rightarrow> bool" where
  "reachesSign env chain cr =
     (createSafeWallet env (ownerAddress env) (chainId chain) = Resolves cr \<and> cr_success cr
      \<and> embeddedWallet env \<and> switchChain env (chainId chain) = Resolves ())"

text \<open>The verification step is reached when, in addition, signing resolves with success and a
  transaction to submit, and the submission resolves with success.\<close>

definition reachesVerify :: "env \<Rightarrow> ChainInfo \<Rightarrow> CreateSafeResult \<Rightarrow> bool" where
  "reachesVerify env chain cr =
     (reachesSign env chain cr
      \<and> (case signEnableModule env (cr_safeAddress cr) (chainId chain) of
            Resolves sr \<Rightarrow> sr_success sr \<and> \<not> alreadyEnabled sr
          | Rejects e \<Rightarrow> False)
      \<and> (case submitEnableModule env of Resolves sb \<Rightarrow> sb_success sb | Rejects e \<Rightarrow> False))"

section \<open>Reading the call log\<close>


text \<open>The log of a verification whose reads throw on the attempts before \<open>k\<close> and
  resolve on attempt \<open>k\<close>: each failed read is followed by its back-off sleep.\<close>

fun retryLog :: "string option \<Rightarrow> string \<Rightarrow> rat \<Rightarrow> nat \<Rightarrow> nat \<Rightarrow> call list" where
  "retryLog safeAddr moduleAddress delayMs attempt 0 =
     [CallIsModuleEnabled safeAddr moduleAddress attempt]"
| "retryLog safeAddr moduleAddress delayMs attempt (Suc j) =
     CallIsModuleEnabled safeAddr moduleAddress attempt
       # SetTimeout (delayMs * (3 / 2) ^ attempt)
       # retryLog safeAddr moduleAddress delayMs (Suc attempt) j"

section \<open>A concrete configuration\<close>

text \<open>Two configured chains, a returning user's record, and an environment in which every
  collaborator succeeds; the instances below change single fields of it.\<close>

definition sepolia :: ChainInfo where
  "sepolia = \<lparr>id' = ''sepolia'', name = ''Sepolia'', chainId = 11155111, isTestnet = True\<rparr>"

definition mainnet :: ChainInfo where
  "mainnet = \<lparr>id' = ''mainnet'', name = ''Ethereum'', chainId = 1, isTestnet = False\<rparr>"

text \<open>A chain whose numeric id the registry does not list.\<close>

definition unlistedChain :: ChainInfo where
  "unlistedChain = \<lparr>id' = ''base'', name = ''Base'', chainId = 8453, isTestnet = False\<rparr>"

definition registry :: "nat \<Rightarrow> ChainInfo option" where
  "registry n = (if n = 1 then Some mainnet else if n = 11155111 then Some sepolia else None)"

definition someUser :: UserData where
  "someUser = \<lparr>user_id = ''u1'', address = ''0xowner'', email = ''u@example.org'',
     onboarded_at = ''2025-01-01'', safe_wallet_address_testnet = Some ''0xsafeT'',
     safe_wallet_address_mainnet = None\<rparr>"

definition okCreate :: CreateSafeResult where
  "okCreate = \<lparr>cr_success = True, cr_safeAddress = Some ''0xsafe'', cr_error = None\<rparr>"

definition okSign :: SignResult where
  "okSign = \<lparr>sr_success = True,
     sr_data = Some \<lparr>threshold = 1, owners = [''0xowner''], safeTxHash = ''0xhash''\<rparr>,
     sr_error = None\<rparr>"

definition okSubmit :: SubmitResult where
  "okSubmit = \<lparr>sb_success = True, sb_error = None\<rparr>"

definition happyEnv :: env where
  "happyEnv = \<lparr>ready = True, authenticated = True, walletAddress = Some ''0xowner'',
     embeddedWallet = True, ethereumProvider = True,
     getPrivyAccessToken = Resolves (Some ''token''),
     fetchUsersMe = (\<lambda>_. Resolves \<lparr>ok = True,
        json = Resolves \<lparr>body_success = True, body_data = JsUser someUser\<rparr>\<rparr>),
     createSafeWallet = (\<lambda>_ _. Resolves okCreate),
     switchChain = (\<lambda>_. Resolves ()),
     currentProviderChainId = (\<lambda>_. Some 1),
     signEnableModule = (\<lambda>_ _. Resolves okSign),
     submitEnableModule = Resolves okSubmit,
     getSafeModuleAddress = (\<lambda>_. Some ''0xmodule''),
     isModuleEnabled = (\<lambda>_ _ _. Resolves True),
     getChain = registry\<rparr>"

definition alreadyEnabledEnv :: env where
  "alreadyEnabledEnv = happyEnv\<lparr>signEnableModule := (\<lambda>_ _. Resolves \<lparr>sr_success = True,
     sr_data = Some \<lparr>threshold = 1, owners = [''0xowner''], safeTxHash = []\<rparr>,
     sr_error = None\<rparr>)\<rparr>"

definition flakyReadEnv :: env where
  "flakyReadEnv = happyEnv\<lparr>isModuleEnabled :=
     (\<lambda>_ _ k. if k < 2 then Rejects (ErrorObj ''rpc unavailable'') else Resolves True)\<rparr>"

definition deadReadEnv :: env where
  "deadReadEnv = happyEnv\<lparr>isModuleEnabled :=
     (\<lambda>_ _ _. Rejects (ErrorObj ''rpc unavailable''))\<rparr>"

definition laggingReadEnv :: env where
  "laggingReadEnv = happyEnv\<lparr>isModuleEnabled := (\<lambda>_ _ k. Resolves (2 \<le> k))\<rparr>"

definition unconfiguredEnv :: env where
  "unconfiguredEnv = happyEnv\<lparr>getSafeModuleAddress := (\<lambda>_. None)\<rparr>"

definition signThrowsEnv :: env where
  "signThrowsEnv = happyEnv\<lparr>signEnableModule :=
     (\<lambda>_ _. Rejects (ErrorObj ''User rejected the request''))\<rparr>"

definition signFailsEnv :: env where
  "signFailsEnv = happyEnv\<lparr>signEnableModule := (\<lambda>_ _. Resolves \<lparr>sr_success = False,
     sr_data = None, sr_error = Some ''Signature declined''\<rparr>)\<rparr>"

definition createFailsEnv :: env where
  "createFailsEnv = happyEnv\<lparr>createSafeWallet := (\<lambda>_ _. Resolves \<lparr>cr_success = False,
     cr_safeAddress = None, cr_error = Some ''Safe creation failed''\<rparr>)\<rparr>"

definition offlineEnv :: env where
  "offlineEnv = happyEnv\<lparr>fetchUsersMe := (\<lambda>_. Rejects (ErrorObj ''Failed to fetch''))\<rparr>"

definition noRecordEnv :: env where
  "noRecordEnv = happyEnv\<lparr>fetchUsersMe := (\<lambda>_. Resolves \<lparr>ok = False,
     json = Resolves \<lparr>body_success = False, body_data = JsNull\<rparr>\<rparr>)\<rparr>"

text \<open>An OK response whose body reports success and has no \<^verbatim>\<open>data\<close> key.\<close>

definition emptyBodyEnv :: env where
  "emptyBodyEnv = happyEnv\<lparr>fetchUsersMe := (\<lambda>_. Resolves \<lparr>ok = True,
     json = Resolves \<lparr>body_success = True, body_data = JsUndefined\<rparr>\<rparr>)\<rparr>"

definition mainnetUser :: UserData where
  "mainnetUser = someUser\<lparr>safe_wallet_address_testnet := None,
     safe_wallet_address_mainnet := Some ''0xsafeM''\<rparr>"

definition mainnetUserEnv :: env where
  "mainnetUserEnv = happyEnv\<lparr>fetchUsersMe := (\<lambda>_. Resolves \<lparr>ok = True,
     json = Resolves \<lparr>body_success = True, body_data = JsUser mainnetUser\<rparr>\<rparr>)\<rparr>"

definition freshSession :: "ChainInfo list \<Rightarrow> session" where
  "freshSession chainsToSetup = \<lparr>isModeValid = Some True, walletChoiceCompleted = True,
     needsOnboarding = False, isOnboarding = False, isCheckingUser = False,
     progress = initializeProgress chainsToSetup, currentSigningChain = None, calls = []\<rparr>"



text \<open>The state left by an attempt on mainnet whose signature was declined.\<close>

definition failedSession :: session where
  "failedSession = snd (processChain signFailsEnv mainnet (freshSession [sepolia, mainnet]))"

section \<open>Lemmas on the primitives\<close>


lemma waitForChain_const:
  "0 < timeoutMs \<Longrightarrow> waitForChain (\<lambda>_. Some n) n timeoutMs = (None, [])"
  by (simp add: waitForChain_def waitLoop.simps)

lemma switchAndWait_ok:
  "embeddedWallet env \<Longrightarrow> switchChain env n = Resolves u \<Longrightarrow>
   switchAndWait env n = (None, [CallSwitchChain n])"
  by (simp add: switchAndWait_def ensureChainSelected_def waitForChain_const)

lemma waitLoop_never:
  "\<forall>t. g t \<noteq> Some n \<Longrightarrow>
   fst (waitLoop g n timeoutMs elapsed) =
     Some (ErrorObj (''Timeout waiting for chain '' @ showNat n @ '' to become active''))"
proof (induction g n timeoutMs elapsed rule: waitLoop.induct)
  case (1 g n timeoutMs elapsed)
  show ?case
  proof (cases "elapsed < timeoutMs")
    case True
    with 1 show ?thesis
      by (subst waitLoop.simps) (simp add: case_prod_unfold)
  next
    case False
    then show ?thesis by (subst waitLoop.simps) simp
  qed
qed





lemma verifyModuleEnabled_unconfigured:
  "\<not> truthy (getSafeModuleAddress env n) \<Longrightarrow>
   verifyModuleEnabled env a n maxRetries d =
     (Inl (ErrorObj (''Module address not configured for chain '' @ showNat n)), [])"
  by (simp add: verifyModuleEnabled_def)

lemma verifyLoop_retry:
  "attempt + j < maxRetries \<Longrightarrow>
   \<forall>i. attempt \<le> i \<and> i < attempt + j \<longrightarrow> (\<exists>e. isModuleEnabled env a m i = Rejects e) \<Longrightarrow>
   isModuleEnabled env a m (attempt + j) = Resolves b \<Longrightarrow>
   verifyLoop env a m maxRetries d attempt l = (Inr b, retryLog a m d attempt j)"
proof (induction j arbitrary: attempt l)
  case 0
  then show ?case by (subst verifyLoop.simps) simp
next
  case (Suc j)
  from Suc.prems(2) obtain e where e: "isModuleEnabled env a m attempt = Rejects e"
    by (metis le_refl less_add_Suc1 add_Suc_right)
  have "verifyLoop env a m maxRetries d (Suc attempt) (Some (messageOrString e))
          = (Inr b, retryLog a m d (Suc attempt) j)"
    using Suc.prems by (intro Suc.IH) auto
  with e Suc.prems(1) show ?case
    by (subst verifyLoop.simps) simp
qed

section \<open>Lemmas on processChain\<close>

lemma progress_setProgress:
  "progress (setProgress k f st) = (progress st)(k \<mapsto> f (spread (progress st) k))"
  by (simp add: setProgress_def)

lemma progress_logCall: "progress (logCall c st) = progress st"
  by (simp add: logCall_def)

lemma progress_logCalls: "progress (logCalls cs st) = progress st"
  by (simp add: logCalls_def)




lemma processChain_frame:
  "k \<noteq> id' chain \<Longrightarrow> progress (snd (processChain env chain st)) k = progress st k"
  by (simp add: processChain_def Let_def outerCatch_def progress_setProgress progress_logCall progress_logCalls
           split: outcome.splits prod.splits option.splits sum.splits)





section \<open>The already-enabled short-circuit\<close>

text \<open>
  Claim C6.  Whenever process-one-chain gets as far as the signature request and
  \<open>signEnableModule\<close> resolves with success and data whose transaction hash is empty, the
  chain is reported as processed (the result is true), the calls of the run are exactly
  create, switch and sign, so \<open>submitEnableModule\<close> is never invoked, and the chain's
  entry ends with module-enable and module-verify both at success.
\<close>

theorem sign_already_enabled_short_circuit:
  assumes "reachesSign env chain cr"
      and "signEnableModule env (cr_safeAddress cr) (chainId chain) = Resolves sr"
      and "sr_success sr" and "sr_data sr = Some d" and "safeTxHash d = []"
  shows "fst (processChain env chain st)
       \<and> calls (snd (processChain env chain st)) = calls st @
           [CallCreateSafeWallet (ownerAddress env) (chainId chain),
            CallSwitchChain (chainId chain),
            CallSignEnableModule (cr_safeAddress cr) (chainId chain)]
       \<and> map_option moduleEnable (progress (snd (processChain env chain st)) (id' chain)) = Some (Some Success)
       \<and> map_option moduleVerify (progress (snd (processChain env chain st)) (id' chain)) = Some (Some Success)"
  using assms
  by (simp add: reachesSign_def processChain_def Let_def switchAndWait_ok alreadyEnabled_def
        setProgress_def logCall_def logCalls_def spread_def)

theorem sign_already_enabled_short_circuit_witness:
  "reachesSign alreadyEnabledEnv mainnet okCreate
   \<and> fst (processChain alreadyEnabledEnv mainnet (freshSession [mainnet]))
   \<and> calls (snd (processChain alreadyEnabledEnv mainnet (freshSession [mainnet]))) =
        [CallCreateSafeWallet ''0xowner'' 1, CallSwitchChain 1, CallSignEnableModule (Some ''0xsafe'') 1]
   \<and> map_option moduleEnable (progress (snd (processChain alreadyEnabledEnv mainnet (freshSession [mainnet]))) ''mainnet'') = Some (Some Success)
   \<and> map_option moduleVerify (progress (snd (processChain alreadyEnabledEnv mainnet (freshSession [mainnet]))) ''mainnet'') = Some (Some Success)"
proof -
  have r: "reachesSign alreadyEnabledEnv mainnet okCreate"
    by (simp add: reachesSign_def alreadyEnabledEnv_def happyEnv_def okCreate_def ownerAddress_def)
  have s: "signEnableModule alreadyEnabledEnv (cr_safeAddress okCreate) (chainId mainnet)
            = Resolves \<lparr>sr_success = True,
                sr_data = Some \<lparr>threshold = 1, owners = [''0xowner''], safeTxHash = []\<rparr>,
                sr_error = None\<rparr>"
    by (simp add: alreadyEnabledEnv_def happyEnv_def)
  show ?thesis
    using r sign_already_enabled_short_circuit [OF r s, of _ "freshSession [mainnet]"]
    by (simp add: freshSession_def mainnet_def okCreate_def ownerAddress_def alreadyEnabledEnv_def happyEnv_def)
qed

section \<open>Facts about the concrete configuration\<close>

lemma showNat_1: "showNat (Suc 0) = ''1''"
  by (simp add: showNat.simps digitChar_def)

lemma mainnet_fields: "id' mainnet = ''mainnet''" "chainId mainnet = 1" "name mainnet = ''Ethereum''"
  by (simp_all add: mainnet_def)

lemma sepolia_fields: "id' sepolia = ''sepolia''" "chainId sepolia = 11155111" "name sepolia = ''Sepolia''"
  by (simp_all add: sepolia_def)

lemma freshSession_fields:
  "calls (freshSession cs) = []" "progress (freshSession cs) = initializeProgress cs"
  "currentSigningChain (freshSession cs) = None" "\<not> needsOnboarding (freshSession cs)"
  "\<not> isOnboarding (freshSession cs)"
  by (simp_all add: freshSession_def)

lemma okCreate_fields: "cr_safeAddress okCreate = Some ''0xsafe''" "cr_success okCreate"
  by (simp_all add: okCreate_def)

section \<open>Verification: a missing module address\<close>

text \<open>
  Claim C10.  When no module address is configured for the chain (the lookup gives nothing,
  or the empty string), \<open>verifyModuleEnabled\<close> throws without issuing a single read or
  sleep, whatever the retry budget; and a run of process-one-chain that reaches the
  verification step with a provider present makes no read call, ends with module-verify at
  error, records ``Verification failed: '' followed by the thrown message, and returns false.
\<close>

theorem verify_without_module_address:
  assumes "\<not> truthy (getSafeModuleAddress env (chainId chain))"
      and "reachesVerify env chain cr" and "ethereumProvider env"
  shows "verifyModuleEnabled env a (chainId chain) maxRetries d =
           (Inl (ErrorObj (''Module address not configured for chain '' @ showNat (chainId chain))), [])
       \<and> \<not> fst (processChain env chain st)
       \<and> calls (snd (processChain env chain st)) = calls st @
           [CallCreateSafeWallet (ownerAddress env) (chainId chain),
            CallSwitchChain (chainId chain),
            CallSignEnableModule (cr_safeAddress cr) (chainId chain),
            CallSubmitEnableModule]
       \<and> map_option moduleVerify (progress (snd (processChain env chain st)) (id' chain)) = Some (Some Error)
       \<and> map_option error (progress (snd (processChain env chain st)) (id' chain)) =
           Some (Some (''Verification failed: '' @ ''Module address not configured for chain ''
                        @ showNat (chainId chain)))"
proof -
  have v: "verifyAttempt env (cr_safeAddress cr) (chainId chain) =
             (Inl (ErrorObj (''Module address not configured for chain '' @ showNat (chainId chain))), [])"
    using assms(1,3) by (simp add: verifyAttempt_def verifyModuleEnabled_unconfigured)
  from assms(2) obtain sr sb where
      c: "createSafeWallet env (ownerAddress env) (chainId chain) = Resolves cr" "cr_success cr"
         "embeddedWallet env" "switchChain env (chainId chain) = Resolves ()"
     and s: "signEnableModule env (cr_safeAddress cr) (chainId chain) = Resolves sr"
            "sr_success sr" "\<not> alreadyEnabled sr"
     and b: "submitEnableModule env = Resolves sb" "sb_success sb"
    by (auto simp: reachesVerify_def reachesSign_def split: outcome.splits)
  show ?thesis
    using c s b v assms(1)
    by (simp add: verifyModuleEnabled_unconfigured processChain_def Let_def switchAndWait_ok
          setProgress_def logCall_def logCalls_def spread_def messageOrString_def)
qed

theorem verify_without_module_address_witness:
  "\<not> truthy (getSafeModuleAddress unconfiguredEnv (chainId mainnet))
   \<and> reachesVerify unconfiguredEnv mainnet okCreate \<and> ethereumProvider unconfiguredEnv
   \<and> verifyModuleEnabled unconfiguredEnv (Some ''0xsafe'') 1 5 2000 =
        (Inl (ErrorObj ''Module address not configured for chain 1''), [])
   \<and> \<not> fst (processChain unconfiguredEnv mainnet (freshSession [mainnet]))
   \<and> calls (snd (processChain unconfiguredEnv mainnet (freshSession [mainnet]))) =
        [CallCreateSafeWallet ''0xowner'' 1, CallSwitchChain 1,
         CallSignEnableModule (Some ''0xsafe'') 1, CallSubmitEnableModule]
   \<and> map_option moduleVerify (progress (snd (processChain unconfiguredEnv mainnet (freshSession [mainnet]))) ''mainnet'')
        = Some (Some Error)
   \<and> map_option error (progress (snd (processChain unconfiguredEnv mainnet (freshSession [mainnet]))) ''mainnet'')
        = Some (Some ''Verification failed: Module address not configured for chain 1'')"
proof -
  have t: "\<not> truthy (getSafeModuleAddress unconfiguredEnv (chainId mainnet))"
    by (simp add: unconfiguredEnv_def happyEnv_def truthy_def)
  have r: "reachesVerify unconfiguredEnv mainnet okCreate"
    by (simp add: reachesVerify_def reachesSign_def unconfiguredEnv_def happyEnv_def okCreate_def
          okSign_def okSubmit_def alreadyEnabled_def ownerAddress_def)
  have p: "ethereumProvider unconfiguredEnv"
    by (simp add: unconfiguredEnv_def happyEnv_def)
  have o: "ownerAddress unconfiguredEnv = ''0xowner''"
    by (simp add: unconfiguredEnv_def happyEnv_def ownerAddress_def)
  show ?thesis
    using t r p
      verify_without_module_address [OF t r p, of "Some ''0xsafe''" 5 2000 "freshSession [mainnet]"]
    by (simp add: mainnet_fields freshSession_fields okCreate_fields o showNat_1)
qed

section \<open>Verification: which reads are retried\<close>

lemma reachesVerify_path:
  assumes "reachesVerify env chain cr"
      and "verifyAttempt env (cr_safeAddress cr) (chainId chain) = (Inr b, cs)"
  shows "fst (processChain env chain st) = b
       \<and> calls (snd (processChain env chain st)) = calls st @
           [CallCreateSafeWallet (ownerAddress env) (chainId chain),
            CallSwitchChain (chainId chain),
            CallSignEnableModule (cr_safeAddress cr) (chainId chain),
            CallSubmitEnableModule] @ cs
       \<and> map_option moduleVerify (progress (snd (processChain env chain st)) (id' chain))
           = Some (Some (if b then Success else Error))
       \<and> (\<not> b \<longrightarrow> map_option error (progress (snd (processChain env chain st)) (id' chain))
           = Some (Some ''Module not enabled after transaction''))"
proof -
  from assms(1) obtain sr sb where
      c: "createSafeWallet env (ownerAddress env) (chainId chain) = Resolves cr" "cr_success cr"
         "embeddedWallet env" "switchChain env (chainId chain) = Resolves ()"
     and s: "signEnableModule env (cr_safeAddress cr) (chainId chain) = Resolves sr"
            "sr_success sr" "\<not> alreadyEnabled sr"
     and b: "submitEnableModule env = Resolves sb" "sb_success sb"
    by (auto simp: reachesVerify_def reachesSign_def split: outcome.splits)
  show ?thesis
    using c s b assms(2)
    by (simp add: processChain_def Let_def switchAndWait_ok
          setProgress_def logCall_def logCalls_def spread_def)
qed

lemma reachesVerify_thrown:
  assumes "reachesVerify env chain cr"
      and "verifyAttempt env (cr_safeAddress cr) (chainId chain) = (Inl e, cs)"
  shows "\<not> fst (processChain env chain st)
       \<and> calls (snd (processChain env chain st)) = calls st @
           [CallCreateSafeWallet (ownerAddress env) (chainId chain),
            CallSwitchChain (chainId chain),
            CallSignEnableModule (cr_safeAddress cr) (chainId chain),
            CallSubmitEnableModule] @ cs
       \<and> map_option moduleVerify (progress (snd (processChain env chain st)) (id' chain))
           = Some (Some Error)
       \<and> map_option error (progress (snd (processChain env chain st)) (id' chain))
           = Some (Some (''Verification failed: '' @ messageOrString e))"
proof -
  from assms(1) obtain sr sb where
      c: "createSafeWallet env (ownerAddress env) (chainId chain) = Resolves cr" "cr_success cr"
         "embeddedWallet env" "switchChain env (chainId chain) = Resolves ()"
     and s: "signEnableModule env (cr_safeAddress cr) (chainId chain) = Resolves sr"
            "sr_success sr" "\<not> alreadyEnabled sr"
     and b: "submitEnableModule env = Resolves sb" "sb_success sb"
    by (auto simp: reachesVerify_def reachesSign_def split: outcome.splits)
  show ?thesis
    using c s b assms(2)
    by (simp add: processChain_def Let_def switchAndWait_ok
          setProgress_def logCall_def logCalls_def spread_def)
qed

lemma verifyLoop_exhausted:
  "attempt + j + 1 = maxRetries \<Longrightarrow>
   \<forall>i. attempt \<le> i \<and> i < attempt + j \<longrightarrow> (\<exists>e'. isModuleEnabled env a m i = Rejects e') \<Longrightarrow>
   isModuleEnabled env a m (attempt + j) = Rejects e \<Longrightarrow>
   verifyLoop env a m maxRetries d attempt l =
     (Inl (ErrorObj (''Failed to verify module status after '' @ showNat maxRetries
                      @ '' attempts: ''
                      @ (if messageOrString e = [] then ''Unknown error'' else messageOrString e))),
      retryLog a m d attempt j)"
proof (induction j arbitrary: attempt l)
  case 0
  have "verifyLoop env a m maxRetries d (attempt + 1) (Some (messageOrString e)) =
          (Inl (ErrorObj (''Failed to verify module status after '' @ showNat maxRetries
                      @ '' attempts: ''
                      @ (if messageOrString e = [] then ''Unknown error'' else messageOrString e))), [])"
    using "0.prems"(1) by (subst verifyLoop.simps) (simp add: truthy_def)
  with "0.prems" show ?case
    by (subst verifyLoop.simps) simp
next
  case (Suc j)
  from Suc.prems(2) obtain e' where e': "isModuleEnabled env a m attempt = Rejects e'"
    by (metis le_refl less_add_Suc1 add_Suc_right)
  have "verifyLoop env a m maxRetries d (Suc attempt) (Some (messageOrString e'))
          = (Inl (ErrorObj (''Failed to verify module status after '' @ showNat maxRetries
                      @ '' attempts: ''
                      @ (if messageOrString e = [] then ''Unknown error'' else messageOrString e))),
             retryLog a m d (Suc attempt) j)"
    using Suc.prems by (intro Suc.IH) auto
  with e' Suc.prems(1) show ?case
    by (subst verifyLoop.simps) simp
qed

lemma retryLog_four:
  "retryLog a m 2000 0 4 =
     [CallIsModuleEnabled a m 0, SetTimeout 2000, CallIsModuleEnabled a m 1, SetTimeout 3000,
      CallIsModuleEnabled a m 2, SetTimeout 4500, CallIsModuleEnabled a m 3, SetTimeout 6750,
      CallIsModuleEnabled a m 4]"
  by (simp add: eval_nat_numeral)

lemma showNat_5: "showNat 5 = ''5''"
  by (simp add: showNat.simps digitChar_def)

text \<open>
  Claim C1, as the code has it.  In a run that reaches the verification step (provider
  present, module address configured) the budget is the 5 attempts that process-one-chain
  passes, and only a read that throws is retried.  If the reads on the attempts before
  \<open>k\<close> throw and the read on attempt \<open>k\<close> returns \<open>b\<close>, with \<open>k\<close> below 5, the run
  returns \<open>b\<close>, module-verify ends success when \<open>b\<close> is true and error (``Module not
  enabled after transaction'') when it is false, and the log after the submission is the
  reads 0..k, each failed one followed by a sleep of 2000 * 1.5 ^ attempt ms.  So two
  throwing reads followed by a true read give success, and a first read that returns false
  decides the step at once.  If all five reads throw, the run makes exactly five reads with
  sleeps of 2000, 3000, 4500 and 6750 ms between them and none after the fifth, returns
  false, and module-verify ends error with ``Verification failed: Failed to verify module
  status after 5 attempts: '' followed by the message of the last thrown value (or
  ``Unknown error'' when that message is empty).
\<close>

theorem verify_retries_thrown_reads:
  assumes "reachesVerify env chain cr" and "ethereumProvider env"
      and "getSafeModuleAddress env (chainId chain) = Some m" and "m \<noteq> []"
  shows "(\<forall>k b. k < 5
             \<and> (\<forall>i<k. \<exists>e. isModuleEnabled env (cr_safeAddress cr) m i = Rejects e)
             \<and> isModuleEnabled env (cr_safeAddress cr) m k = Resolves b \<longrightarrow>
           fst (processChain env chain st) = b
           \<and> calls (snd (processChain env chain st)) = calls st @
               [CallCreateSafeWallet (ownerAddress env) (chainId chain),
                CallSwitchChain (chainId chain),
                CallSignEnableModule (cr_safeAddress cr) (chainId chain),
                CallSubmitEnableModule] @ retryLog (cr_safeAddress cr) m 2000 0 k
           \<and> map_option moduleVerify (progress (snd (processChain env chain st)) (id' chain))
               = Some (Some (if b then Success else Error))
           \<and> (\<not> b \<longrightarrow> map_option error (progress (snd (processChain env chain st)) (id' chain))
               = Some (Some ''Module not enabled after transaction'')))
       \<and> (\<forall>e. (\<forall>i<4. \<exists>e'. isModuleEnabled env (cr_safeAddress cr) m i = Rejects e')
             \<and> isModuleEnabled env (cr_safeAddress cr) m 4 = Rejects e \<longrightarrow>
           \<not> fst (processChain env chain st)
           \<and> calls (snd (processChain env chain st)) = calls st @
               [CallCreateSafeWallet (ownerAddress env) (chainId chain),
                CallSwitchChain (chainId chain),
                CallSignEnableModule (cr_safeAddress cr) (chainId chain),
                CallSubmitEnableModule,
                CallIsModuleEnabled (cr_safeAddress cr) m 0, SetTimeout 2000,
                CallIsModuleEnabled (cr_safeAddress cr) m 1, SetTimeout 3000,
                CallIsModuleEnabled (cr_safeAddress cr) m 2, SetTimeout 4500,
                CallIsModuleEnabled (cr_safeAddress cr) m 3, SetTimeout 6750,
                CallIsModuleEnabled (cr_safeAddress cr) m 4]
           \<and> map_option moduleVerify (progress (snd (processChain env chain st)) (id' chain))
               = Some (Some Error)
           \<and> map_option error (progress (snd (processChain env chain st)) (id' chain))
               = Some (Some (''Verification failed: Failed to verify module status after 5 attempts: ''
                             @ (if messageOrString e = [] then ''Unknown error''
                                else messageOrString e))))"
proof (intro conjI allI impI)
  fix k b
  assume h: "k < 5
             \<and> (\<forall>i<k. \<exists>e. isModuleEnabled env (cr_safeAddress cr) m i = Rejects e)
             \<and> isModuleEnabled env (cr_safeAddress cr) m k = Resolves b"
  then have "verifyLoop env (cr_safeAddress cr) m 5 2000 0 None
          = (Inr b, retryLog (cr_safeAddress cr) m 2000 0 k)"
    by (intro verifyLoop_retry) auto
  then have "verifyAttempt env (cr_safeAddress cr) (chainId chain)
          = (Inr b, retryLog (cr_safeAddress cr) m 2000 0 k)"
    using assms(2,3,4) by (simp add: verifyAttempt_def verifyModuleEnabled_def truthy_def)
  note pth = reachesVerify_path [OF assms(1) this, of st]
  show "fst (processChain env chain st) = b"
    using pth by blast
  show "calls (snd (processChain env chain st)) = calls st @
               [CallCreateSafeWallet (ownerAddress env) (chainId chain),
                CallSwitchChain (chainId chain),
                CallSignEnableModule (cr_safeAddress cr) (chainId chain),
                CallSubmitEnableModule] @ retryLog (cr_safeAddress cr) m 2000 0 k"
    using pth by blast
  show "map_option moduleVerify (progress (snd (processChain env chain st)) (id' chain))
               = Some (Some (if b then Success else Error))"
    using pth by blast
  show "map_option error (progress (snd (processChain env chain st)) (id' chain))
               = Some (Some ''Module not enabled after transaction'')" if "\<not> b"
    using pth that by blast
next
  fix e
  assume h: "(\<forall>i<4. \<exists>e'. isModuleEnabled env (cr_safeAddress cr) m i = Rejects e')
             \<and> isModuleEnabled env (cr_safeAddress cr) m 4 = Rejects e"
  have "verifyLoop env (cr_safeAddress cr) m 5 2000 0 None
          = (Inl (ErrorObj (''Failed to verify module status after '' @ showNat 5
                      @ '' attempts: ''
                      @ (if messageOrString e = [] then ''Unknown error'' else messageOrString e))),
             retryLog (cr_safeAddress cr) m 2000 0 4)"
    using h by (intro verifyLoop_exhausted) auto
  then have "verifyAttempt env (cr_safeAddress cr) (chainId chain)
          = (Inl (ErrorObj (''Failed to verify module status after 5 attempts: ''
                      @ (if messageOrString e = [] then ''Unknown error'' else messageOrString e))),
             retryLog (cr_safeAddress cr) m 2000 0 4)"
    using assms(2,3,4)
    by (simp add: verifyAttempt_def verifyModuleEnabled_def truthy_def showNat_5)
  note thr = reachesVerify_thrown [OF assms(1) this, of st]
  show "\<not> fst (processChain env chain st)"
    using thr by blast
  from thr
  show "calls (snd (processChain env chain st)) = calls st @
               [CallCreateSafeWallet (ownerAddress env) (chainId chain),
                CallSwitchChain (chainId chain),
                CallSignEnableModule (cr_safeAddress cr) (chainId chain),
                CallSubmitEnableModule,
                CallIsModuleEnabled (cr_safeAddress cr) m 0, SetTimeout 2000,
                CallIsModuleEnabled (cr_safeAddress cr) m 1, SetTimeout 3000,
                CallIsModuleEnabled (cr_safeAddress cr) m 2, SetTimeout 4500,
                CallIsModuleEnabled (cr_safeAddress cr) m 3, SetTimeout 6750,
                CallIsModuleEnabled (cr_safeAddress cr) m 4]"
    and "map_option moduleVerify (progress (snd (processChain env chain st)) (id' chain))
               = Some (Some Error)"
    and "map_option error (progress (snd (processChain env chain st)) (id' chain))
               = Some (Some (''Verification failed: Failed to verify module status after 5 attempts: ''
                             @ (if messageOrString e = [] then ''Unknown error''
                                else messageOrString e)))"
    by (simp_all add: retryLog_four messageOrString_def)
qed

lemma retryLog_2:
  "retryLog a m d 0 2 = [CallIsModuleEnabled a m 0, SetTimeout d,
     CallIsModuleEnabled a m 1, SetTimeout (d * (3 / 2)), CallIsModuleEnabled a m 2]"
  by (simp add: numeral_2_eq_2)

theorem verify_retries_thrown_reads_witness:
  "reachesVerify flakyReadEnv mainnet okCreate \<and> ethereumProvider flakyReadEnv
   \<and> getSafeModuleAddress flakyReadEnv (chainId mainnet) = Some ''0xmodule''
   \<and> isModuleEnabled flakyReadEnv (Some ''0xsafe'') ''0xmodule'' 0 = Rejects (ErrorObj ''rpc unavailable'')
   \<and> isModuleEnabled flakyReadEnv (Some ''0xsafe'') ''0xmodule'' 1 = Rejects (ErrorObj ''rpc unavailable'')
   \<and> isModuleEnabled flakyReadEnv (Some ''0xsafe'') ''0xmodule'' 2 = Resolves True
   \<and> fst (processChain flakyReadEnv mainnet (freshSession [mainnet]))
   \<and> calls (snd (processChain flakyReadEnv mainnet (freshSession [mainnet]))) =
        [CallCreateSafeWallet ''0xowner'' 1, CallSwitchChain 1,
         CallSignEnableModule (Some ''0xsafe'') 1, CallSubmitEnableModule,
         CallIsModuleEnabled (Some ''0xsafe'') ''0xmodule'' 0, SetTimeout 2000,
         CallIsModuleEnabled (Some ''0xsafe'') ''0xmodule'' 1, SetTimeout 3000,
         CallIsModuleEnabled (Some ''0xsafe'') ''0xmodule'' 2]
   \<and> map_option moduleVerify (progress (snd (processChain flakyReadEnv mainnet (freshSession [mainnet]))) ''mainnet'')
        = Some (Some Success)
   \<and> reachesVerify deadReadEnv mainnet okCreate
   \<and> \<not> fst (processChain deadReadEnv mainnet (freshSession [mainnet]))
   \<and> calls (snd (processChain deadReadEnv mainnet (freshSession [mainnet]))) =
        [CallCreateSafeWallet ''0xowner'' 1, CallSwitchChain 1,
         CallSignEnableModule (Some ''0xsafe'') 1, CallSubmitEnableModule,
         CallIsModuleEnabled (Some ''0xsafe'') ''0xmodule'' 0, SetTimeout 2000,
         CallIsModuleEnabled (Some ''0xsafe'') ''0xmodule'' 1, SetTimeout 3000,
         CallIsModuleEnabled (Some ''0xsafe'') ''0xmodule'' 2, SetTimeout 4500,
         CallIsModuleEnabled (Some ''0xsafe'') ''0xmodule'' 3, SetTimeout 6750,
         CallIsModuleEnabled (Some ''0xsafe'') ''0xmodule'' 4]
   \<and> map_option error (progress (snd (processChain deadReadEnv mainnet (freshSession [mainnet]))) ''mainnet'')
        = Some (Some ''Verification failed: Failed to verify module status after 5 attempts: rpc unavailable'')"
proof -
  have r: "reachesVerify flakyReadEnv mainnet okCreate"
    by (simp add: reachesVerify_def reachesSign_def flakyReadEnv_def happyEnv_def okCreate_def
          okSign_def okSubmit_def alreadyEnabled_def ownerAddress_def)
  have p: "ethereumProvider flakyReadEnv"
    by (simp add: flakyReadEnv_def happyEnv_def)
  have m: "getSafeModuleAddress flakyReadEnv (chainId mainnet) = Some ''0xmodule''"
    by (simp add: flakyReadEnv_def happyEnv_def)
  have ne: "''0xmodule'' \<noteq> []" by simp
  have rd: "isModuleEnabled flakyReadEnv a ''0xmodule'' i =
              (if i < 2 then Rejects (ErrorObj ''rpc unavailable'') else Resolves True)" for a i
    by (simp add: flakyReadEnv_def happyEnv_def)
  have f: "2 < (5::nat)
       \<and> (\<forall>i<2. \<exists>e. isModuleEnabled flakyReadEnv (cr_safeAddress okCreate) ''0xmodule'' i = Rejects e)
       \<and> isModuleEnabled flakyReadEnv (cr_safeAddress okCreate) ''0xmodule'' 2 = Resolves True"
    by (simp add: rd)
  have o: "ownerAddress flakyReadEnv = ''0xowner''"
    by (simp add: flakyReadEnv_def happyEnv_def ownerAddress_def)
  note t1 = verify_retries_thrown_reads [OF r p m ne, of "freshSession [mainnet]",
              THEN conjunct1, THEN spec, THEN spec, THEN mp, OF f]
  have a: "fst (processChain flakyReadEnv mainnet (freshSession [mainnet]))
   \<and> calls (snd (processChain flakyReadEnv mainnet (freshSession [mainnet]))) =
        [CallCreateSafeWallet ''0xowner'' 1, CallSwitchChain 1,
         CallSignEnableModule (Some ''0xsafe'') 1, CallSubmitEnableModule,
         CallIsModuleEnabled (Some ''0xsafe'') ''0xmodule'' 0, SetTimeout 2000,
         CallIsModuleEnabled (Some ''0xsafe'') ''0xmodule'' 1, SetTimeout 3000,
         CallIsModuleEnabled (Some ''0xsafe'') ''0xmodule'' 2]
   \<and> map_option moduleVerify (progress (snd (processChain flakyReadEnv mainnet (freshSession [mainnet]))) ''mainnet'')
        = Some (Some Success)"
    using t1 by (simp add: mainnet_fields freshSession_fields okCreate_fields o retryLog_2)
  have r': "reachesVerify deadReadEnv mainnet okCreate"
    by (simp add: reachesVerify_def reachesSign_def deadReadEnv_def happyEnv_def okCreate_def
          okSign_def okSubmit_def alreadyEnabled_def ownerAddress_def)
  have p': "ethereumProvider deadReadEnv"
    by (simp add: deadReadEnv_def happyEnv_def)
  have m': "getSafeModuleAddress deadReadEnv (chainId mainnet) = Some ''0xmodule''"
    by (simp add: deadReadEnv_def happyEnv_def)
  have rd': "isModuleEnabled deadReadEnv a ''0xmodule'' i = Rejects (ErrorObj ''rpc unavailable'')" for a i
    by (simp add: deadReadEnv_def happyEnv_def)
  have f': "(\<forall>i<4. \<exists>e'. isModuleEnabled deadReadEnv (cr_safeAddress okCreate) ''0xmodule'' i = Rejects e')
       \<and> isModuleEnabled deadReadEnv (cr_safeAddress okCreate) ''0xmodule'' 4
            = Rejects (ErrorObj ''rpc unavailable'')"
    by (simp add: rd')
  have o': "ownerAddress deadReadEnv = ''0xowner''"
    by (simp add: deadReadEnv_def happyEnv_def ownerAddress_def)
  note t2 = verify_retries_thrown_reads [OF r' p' m' ne, of "freshSession [mainnet]",
              THEN conjunct2, THEN spec, THEN mp, OF f']
  have b: "\<not> fst (processChain deadReadEnv mainnet (freshSession [mainnet]))
   \<and> calls (snd (processChain deadReadEnv mainnet (freshSession [mainnet]))) =
        [CallCreateSafeWallet ''0xowner'' 1, CallSwitchChain 1,
         CallSignEnableModule (Some ''0xsafe'') 1, CallSubmitEnableModule,
         CallIsModuleEnabled (Some ''0xsafe'') ''0xmodule'' 0, SetTimeout 2000,
         CallIsModuleEnabled (Some ''0xsafe'') ''0xmodule'' 1, SetTimeout 3000,
         CallIsModuleEnabled (Some ''0xsafe'') ''0xmodule'' 2, SetTimeout 4500,
         CallIsModuleEnabled (Some ''0xsafe'') ''0xmodule'' 3, SetTimeout 6750,
         CallIsModuleEnabled (Some ''0xsafe'') ''0xmodule'' 4]
   \<and> map_option error (progress (snd (processChain deadReadEnv mainnet (freshSession [mainnet]))) ''mainnet'')
        = Some (Some ''Verification failed: Failed to verify module status after 5 attempts: rpc unavailable'')"
    using t2 by (simp add: mainnet_fields freshSession_fields okCreate_fields o' messageOrString_def)
  from r p m a r' b show ?thesis
    by (simp add: rd)
qed

text \<open>
  The claim as written fails: with reads that return false, false, true, the first read
  already decides.  Process-one-chain makes one read, never sleeps, returns false and
  leaves module-verify at error.
\<close>

theorem verify_false_read_not_retried:
  "isModuleEnabled laggingReadEnv (Some ''0xsafe'') ''0xmodule'' 0 = Resolves False
   \<and> isModuleEnabled laggingReadEnv (Some ''0xsafe'') ''0xmodule'' 1 = Resolves False
   \<and> isModuleEnabled laggingReadEnv (Some ''0xsafe'') ''0xmodule'' 2 = Resolves True
   \<and> \<not> fst (processChain laggingReadEnv mainnet (freshSession [mainnet]))
   \<and> calls (snd (processChain laggingReadEnv mainnet (freshSession [mainnet]))) =
        [CallCreateSafeWallet ''0xowner'' 1, CallSwitchChain 1,
         CallSignEnableModule (Some ''0xsafe'') 1, CallSubmitEnableModule,
         CallIsModuleEnabled (Some ''0xsafe'') ''0xmodule'' 0]
   \<and> map_option moduleVerify (progress (snd (processChain laggingReadEnv mainnet (freshSession [mainnet]))) ''mainnet'')
        = Some (Some Error)"
proof -
  have r: "reachesVerify laggingReadEnv mainnet okCreate"
    by (simp add: reachesVerify_def reachesSign_def laggingReadEnv_def happyEnv_def okCreate_def
          okSign_def okSubmit_def alreadyEnabled_def ownerAddress_def)
  have rd: "isModuleEnabled laggingReadEnv a ''0xmodule'' i = Resolves (2 \<le> i)" for a i
    by (simp add: laggingReadEnv_def happyEnv_def)
  have "verifyLoop laggingReadEnv (Some ''0xsafe'') ''0xmodule'' 5 2000 0 None
          = (Inr False, [CallIsModuleEnabled (Some ''0xsafe'') ''0xmodule'' 0])"
    by (subst verifyLoop.simps) (simp add: rd)
  then have v: "verifyAttempt laggingReadEnv (cr_safeAddress okCreate) (chainId mainnet)
          = (Inr False, [CallIsModuleEnabled (Some ''0xsafe'') ''0xmodule'' 0])"
    by (simp add: verifyAttempt_def verifyModuleEnabled_def truthy_def okCreate_fields
          laggingReadEnv_def happyEnv_def)
  have o: "ownerAddress laggingReadEnv = ''0xowner''"
    by (simp add: laggingReadEnv_def happyEnv_def ownerAddress_def)
  show ?thesis
    using reachesVerify_path [OF r v, of "freshSession [mainnet]"]
    by (simp add: mainnet_fields freshSession_fields okCreate_fields o rd)
qed

section \<open>The wait for the target chain\<close>

text \<open>The primitive by itself: a getter that reports the target at the first poll ends the
  wait at once, and a getter that never reports it ends in the timeout error.\<close>

lemma waitForChain_timeout:
  "\<forall>t. g t \<noteq> Some n \<Longrightarrow>
   fst (waitForChain g n timeoutMs) =
     Some (ErrorObj (''Timeout waiting for chain '' @ showNat n @ '' to become active''))"
  by (simp add: waitForChain_def waitLoop_never)

text \<open>A failed switch, as the inner \<^verbatim>\<open>catch\<close> handles it: module-sign ends error, the
  signing slot is cleared, the run returns false and nothing is signed.\<close>

lemma switch_failure_aborts:
  assumes "createSafeWallet env (ownerAddress env) (chainId chain) = Resolves cr" "cr_success cr"
      and "switchAndWait env (chainId chain) = (Some e, cs)"
  shows "\<not> fst (processChain env chain st)
       \<and> currentSigningChain (snd (processChain env chain st)) = None
       \<and> map_option moduleSign (progress (snd (processChain env chain st)) (id' chain)) = Some (Some Error)
       \<and> calls (snd (processChain env chain st)) =
           calls st @ CallCreateSafeWallet (ownerAddress env) (chainId chain) # cs"
  using assms
  by (simp add: processChain_def Let_def setProgress_def logCall_def logCalls_def spread_def)

text \<open>
  Claim C3, evaluated on the code.  The provider switches without error but keeps reporting
  chain 1 while the target is 11155111.  Polling the provider's reported chain id would
  time out; process-one-chain however passes the getter \<^verbatim>\<open>() => numericChainId\<close> to
  the wait, so the provider's report is never read, no poll sleeps, the signature is
  requested, module-sign ends success and the run returns true.
\<close>

theorem wait_ignores_provider_chain:
  "switchChain happyEnv (chainId sepolia) = Resolves ()
   \<and> (\<forall>t. currentProviderChainId happyEnv t = Some 1)
   \<and> fst (waitForChain (currentProviderChainId happyEnv) (chainId sepolia) 10000) =
        Some (ErrorObj (''Timeout waiting for chain '' @ showNat (chainId sepolia) @ '' to become active''))
   \<and> fst (processChain happyEnv sepolia (freshSession [sepolia]))
   \<and> calls (snd (processChain happyEnv sepolia (freshSession [sepolia]))) =
        [CallCreateSafeWallet ''0xowner'' 11155111, CallSwitchChain 11155111,
         CallSignEnableModule (Some ''0xsafe'') 11155111, CallSubmitEnableModule,
         CallIsModuleEnabled (Some ''0xsafe'') ''0xmodule'' 0]
   \<and> map_option moduleSign (progress (snd (processChain happyEnv sepolia (freshSession [sepolia]))) ''sepolia'')
        = Some (Some Success)"
proof -
  have g: "currentProviderChainId happyEnv t = Some 1" for t
    by (simp add: happyEnv_def)
  have w: "fst (waitForChain (currentProviderChainId happyEnv) (chainId sepolia) 10000) =
        Some (ErrorObj (''Timeout waiting for chain '' @ showNat (chainId sepolia) @ '' to become active''))"
    by (rule waitForChain_timeout) (simp add: g sepolia_fields)
  have r: "reachesVerify happyEnv sepolia okCreate"
    by (simp add: reachesVerify_def reachesSign_def happyEnv_def okCreate_def
          okSign_def okSubmit_def alreadyEnabled_def ownerAddress_def)
  have "verifyLoop happyEnv (Some ''0xsafe'') ''0xmodule'' 5 2000 0 None
          = (Inr True, [CallIsModuleEnabled (Some ''0xsafe'') ''0xmodule'' 0])"
    by (subst verifyLoop.simps) (simp add: happyEnv_def)
  then have v: "verifyAttempt happyEnv (cr_safeAddress okCreate) (chainId sepolia)
          = (Inr True, [CallIsModuleEnabled (Some ''0xsafe'') ''0xmodule'' 0])"
    by (simp add: verifyAttempt_def verifyModuleEnabled_def truthy_def okCreate_fields happyEnv_def)
  have o: "ownerAddress happyEnv = ''0xowner''"
    by (simp add: happyEnv_def ownerAddress_def)
  have s: "map_option moduleSign (progress (snd (processChain happyEnv sepolia (freshSession [sepolia]))) (id' sepolia))
        = Some (Some Success)"
    using r v
    by (auto simp: reachesVerify_def reachesSign_def processChain_def Let_def switchAndWait_ok
          setProgress_def logCall_def logCalls_def spread_def split: outcome.splits)
  have sw: "switchChain happyEnv (chainId sepolia) = Resolves ()"
    by (simp add: happyEnv_def)
  show ?thesis
    using reachesVerify_path [OF r v, of "freshSession [sepolia]"] w s sw
    by (simp add: sepolia_fields freshSession_fields okCreate_fields o g)
qed

section \<open>The currently-signing slot\<close>

text \<open>On the exits that process-one-chain handles itself the slot ends empty: here the
  signature request resolving with \<open>success = false\<close>.\<close>

lemma sign_failure_releases_slot:
  assumes "reachesSign env chain cr"
      and "signEnableModule env (cr_safeAddress cr) (chainId chain) = Resolves sr" "\<not> sr_success sr"
  shows "\<not> fst (processChain env chain st)
       \<and> currentSigningChain (snd (processChain env chain st)) = None"
  using assms
  by (simp add: reachesSign_def processChain_def Let_def switchAndWait_ok
        setProgress_def logCall_def logCalls_def)

text \<open>
  Claim C4, evaluated on the code.  When the signature request rejects (throws) instead of
  resolving, the outer \<^verbatim>\<open>catch\<close> records the message and returns false, but does not
  clear the signing slot: the run has ended and the slot still names the chain.
\<close>

theorem sign_exception_keeps_slot:
  "signEnableModule signThrowsEnv (Some ''0xsafe'') 1 = Rejects (ErrorObj ''User rejected the request'')
   \<and> currentSigningChain (freshSession [mainnet]) = None
   \<and> \<not> fst (processChain signThrowsEnv mainnet (freshSession [mainnet]))
   \<and> currentSigningChain (snd (processChain signThrowsEnv mainnet (freshSession [mainnet]))) = Some ''mainnet''
   \<and> map_option error (progress (snd (processChain signThrowsEnv mainnet (freshSession [mainnet]))) ''mainnet'')
        = Some (Some ''User rejected the request'')
   \<and> map_option moduleSign (progress (snd (processChain signThrowsEnv mainnet (freshSession [mainnet]))) ''mainnet'')
        = Some (Some Pending)"
proof -
  have sw: "switchAndWait signThrowsEnv 1 = (None, [CallSwitchChain 1])"
    by (rule switchAndWait_ok) (simp_all add: signThrowsEnv_def happyEnv_def)
  show ?thesis
    using sw
    by (simp add: processChain_def Let_def outerCatch_def setProgress_def logCall_def logCalls_def
          spread_def messageOrUnknown_def mainnet_fields freshSession_fields
          signThrowsEnv_def happyEnv_def ownerAddress_def okCreate_def)
qed

section \<open>Retrying one chain\<close>



lemma retryChain_failed:
  "find (matchesIdentifier ident) chainsToSetup = Some c \<Longrightarrow> \<not> fst (processChain env c st) \<Longrightarrow>
   retryChain env chainsToSetup ident st = snd (processChain env c st)"
  by (simp add: retryChain_def case_prod_unfold)



lemma initializeProgress_two:
  "initializeProgress [sepolia, mainnet] ''mainnet'' = Some idleProgress"
  "initializeProgress [sepolia, mainnet] ''sepolia'' = Some idleProgress"
  by (simp_all add: initializeProgress_def sepolia_fields mainnet_fields)



lemma find_mainnet: "find (matchesIdentifier (IdNumber 1)) [sepolia, mainnet] = Some mainnet"
  by (simp add: matchesIdentifier_def sepolia_fields mainnet_fields)

text \<open>
  Claim C9.  Process-one-chain writes only the progress entry keyed by the processed chain's
  id; and retrying a chain, for every identifier, chain list, environment and starting
  state, leaves the entry of every other key as it was (all entries when the identifier
  resolves to no chain).
\<close>

theorem retryChain_frame:
  "(\<forall>k. k \<noteq> id' chain \<longrightarrow> progress (snd (processChain env chain st)) k = progress st k)
   \<and> (case find (matchesIdentifier ident) chainsToSetup of
         None \<Rightarrow> progress (retryChain env chainsToSetup ident st) = progress st
       | Some c \<Rightarrow> \<forall>k. k \<noteq> id' c \<longrightarrow>
                     progress (retryChain env chainsToSetup ident st) k = progress st k)"
proof -
  have "progress (retryChain env chainsToSetup ident st) k = progress st k"
    if "find (matchesIdentifier ident) chainsToSetup = Some c" "k \<noteq> id' c" for c k
    using that processChain_frame [of k c env st]
    by (simp add: retryChain_def Let_def progress_logCalls case_prod_unfold)
  moreover have "progress (retryChain env chainsToSetup ident st) = progress st"
    if "find (matchesIdentifier ident) chainsToSetup = None"
    using that by (simp add: retryChain_def)
  ultimately show ?thesis
    by (simp add: processChain_frame split: option.splits)
qed

theorem retryChain_frame_witness:
  "find (matchesIdentifier (IdNumber 1)) [sepolia, mainnet] = Some mainnet
   \<and> ''sepolia'' \<noteq> id' mainnet
   \<and> progress (retryChain createFailsEnv [sepolia, mainnet] (IdNumber 1) failedSession) ''sepolia''
       = progress failedSession ''sepolia''
   \<and> progress (snd (processChain createFailsEnv mainnet failedSession)) ''sepolia''
       = progress failedSession ''sepolia''"
proof -
  note t = retryChain_frame [where chain = mainnet and env = createFailsEnv and st = failedSession
      and ident = "IdNumber 1" and chainsToSetup = "[sepolia, mainnet]"]
  have n: "''sepolia'' \<noteq> id' mainnet" by (simp add: mainnet_fields)
  have a: "progress (snd (processChain createFailsEnv mainnet failedSession)) ''sepolia''
       = progress failedSession ''sepolia''"
    using t [THEN conjunct1, rule_format, OF n] .
  have "\<forall>k. k \<noteq> id' mainnet \<longrightarrow>
          progress (retryChain createFailsEnv [sepolia, mainnet] (IdNumber 1) failedSession) k
            = progress failedSession k"
    using t [THEN conjunct2] unfolding find_mainnet by simp
  then have b: "progress (retryChain createFailsEnv [sepolia, mainnet] (IdNumber 1) failedSession) ''sepolia''
       = progress failedSession ''sepolia''"
    using n by blast
  from find_mainnet n a b show ?thesis by simp
qed










section \<open>Run full onboarding\<close>









section \<open>The user record and the required chains\<close>

lemma fetchUserData_null_iff:
  "fst (fetchUserData env) = JsNull \<longleftrightarrow>
     (\<not> authenticated env
      \<or> (case getPrivyAccessToken env of
            Rejects e \<Rightarrow> True
          | Resolves accessToken \<Rightarrow>
              \<not> truthy accessToken
              \<or> (case fetchUsersMe env (the accessToken) of
                    Rejects e \<Rightarrow> True
                  | Resolves response \<Rightarrow>
                      \<not> ok response
                      \<or> (case json response of
                            Rejects e \<Rightarrow> True
                          | Resolves data \<Rightarrow> \<not> body_success data \<or> body_data data = JsNull))))"
  by (simp add: fetchUserData_def Let_def split: outcome.splits)

lemma checkUser_new_user:
  "fst (fetchUserData env) = JsNull \<Longrightarrow>
   needsOnboarding (checkUser env chainsToSetup st)
   \<and> progress (checkUser env chainsToSetup st) = progress st
   \<and> \<not> isCheckingUser (checkUser env chainsToSetup st)"
  by (simp add: checkUser_def Let_def logCalls_def case_prod_unfold)

lemma checkUserEffect_gate:
  "ready env \<and> authenticated env \<and> truthy (walletAddress env)
     \<and> isModeValid st = Some True \<and> walletChoiceCompleted st \<Longrightarrow>
   checkUserEffect env chainsToSetup st = checkUser env chainsToSetup st"
  by (simp add: checkUserEffect_def)

lemma checkUserEffect_closed:
  "\<not> (ready env \<and> authenticated env \<and> truthy (walletAddress env)
        \<and> isModeValid st = Some True \<and> walletChoiceCompleted st) \<Longrightarrow>
   checkUserEffect env chainsToSetup st = st\<lparr>needsOnboarding := False\<rparr>"
  by (auto simp: checkUserEffect_def)

text \<open>
  Claim C5, as the code has it.  The fetch returns null exactly when it is called
  unauthenticated, or the token request throws or yields no token, or the HTTP request
  throws, or the response is not OK, or reading the body throws, or the body reports no
  success or carries \<^verbatim>\<open>data: null\<close>: a missing record and a transport error give the
  same null.  Whenever the fetch returns null, the user check reports needs-onboarding =
  true, leaves the progress map as it was and ends with the checking flag cleared.  The
  effect runs the check exactly when authentication is ready, the user is authenticated,
  has a wallet address, the mode is valid and the wallet choice is resolved, so under those
  conditions a null fetch gives needs-onboarding = true; otherwise the effect does not run
  the check and sets needs-onboarding to false.
\<close>

theorem fetch_null_means_needs_onboarding:
  "(fst (fetchUserData env) = JsNull \<longleftrightarrow>
     (\<not> authenticated env
      \<or> (case getPrivyAccessToken env of
            Rejects e \<Rightarrow> True
          | Resolves accessToken \<Rightarrow>
              \<not> truthy accessToken
              \<or> (case fetchUsersMe env (the accessToken) of
                    Rejects e \<Rightarrow> True
                  | Resolves response \<Rightarrow>
                      \<not> ok response
                      \<or> (case json response of
                            Rejects e \<Rightarrow> True
                          | Resolves data \<Rightarrow> \<not> body_success data \<or> body_data data = JsNull)))))
   \<and> (fst (fetchUserData env) = JsNull \<longrightarrow>
         needsOnboarding (checkUser env chainsToSetup st)
         \<and> progress (checkUser env chainsToSetup st) = progress st
         \<and> \<not> isCheckingUser (checkUser env chainsToSetup st))
   \<and> (ready env \<and> authenticated env \<and> truthy (walletAddress env)
        \<and> isModeValid st = Some True \<and> walletChoiceCompleted st \<longrightarrow>
         checkUserEffect env chainsToSetup st = checkUser env chainsToSetup st
         \<and> (fst (fetchUserData env) = JsNull \<longrightarrow>
               needsOnboarding (checkUserEffect env chainsToSetup st)))
   \<and> (\<not> (ready env \<and> authenticated env \<and> truthy (walletAddress env)
           \<and> isModeValid st = Some True \<and> walletChoiceCompleted st) \<longrightarrow>
         checkUserEffect env chainsToSetup st = st\<lparr>needsOnboarding := False\<rparr>)"
proof (intro conjI impI)
  show "fst (fetchUserData env) = JsNull \<longleftrightarrow>
     (\<not> authenticated env
      \<or> (case getPrivyAccessToken env of
            Rejects e \<Rightarrow> True
          | Resolves accessToken \<Rightarrow>
              \<not> truthy accessToken
              \<or> (case fetchUsersMe env (the accessToken) of
                    Rejects e \<Rightarrow> True
                  | Resolves response \<Rightarrow>
                      \<not> ok response
                      \<or> (case json response of
                            Rejects e \<Rightarrow> True
                          | Resolves data \<Rightarrow> \<not> body_success data \<or> body_data data = JsNull))))"
    by (rule fetchUserData_null_iff)
next
  assume n: "fst (fetchUserData env) = JsNull"
  show "needsOnboarding (checkUser env chainsToSetup st)"
       "progress (checkUser env chainsToSetup st) = progress st"
       "\<not> isCheckingUser (checkUser env chainsToSetup st)"
    using checkUser_new_user [OF n, of chainsToSetup st] by blast+
next
  assume g: "ready env \<and> authenticated env \<and> truthy (walletAddress env)
        \<and> isModeValid st = Some True \<and> walletChoiceCompleted st"
  show e: "checkUserEffect env chainsToSetup st = checkUser env chainsToSetup st"
    using g by (rule checkUserEffect_gate)
  show "needsOnboarding (checkUserEffect env chainsToSetup st)"
    if n: "fst (fetchUserData env) = JsNull"
    using checkUser_new_user [OF n, of chainsToSetup st] by (simp only: e)
next
  assume "\<not> (ready env \<and> authenticated env \<and> truthy (walletAddress env)
           \<and> isModeValid st = Some True \<and> walletChoiceCompleted st)"
  then show "checkUserEffect env chainsToSetup st = st\<lparr>needsOnboarding := False\<rparr>"
    by (rule checkUserEffect_closed)
qed

lemma offline_fetch:
  "fetchUsersMe offlineEnv ''token'' = Rejects (ErrorObj ''Failed to fetch'')"
  "fst (fetchUserData offlineEnv) = JsNull"
  by (simp_all add: fetchUserData_def offlineEnv_def happyEnv_def truthy_def)

lemma noRecord_fetch:
  "fetchUsersMe noRecordEnv ''token'' =
     Resolves \<lparr>ok = False, json = Resolves \<lparr>body_success = False, body_data = JsNull\<rparr>\<rparr>"
  "fst (fetchUserData noRecordEnv) = JsNull"
  by (simp_all add: fetchUserData_def noRecordEnv_def happyEnv_def truthy_def)

theorem fetch_null_means_needs_onboarding_witness:
  "fetchUsersMe offlineEnv ''token'' = Rejects (ErrorObj ''Failed to fetch'')
   \<and> fst (fetchUserData offlineEnv) = JsNull
   \<and> needsOnboarding (checkUser offlineEnv [sepolia, mainnet] (freshSession [sepolia, mainnet]))
   \<and> progress (checkUser offlineEnv [sepolia, mainnet] (freshSession [sepolia, mainnet]))
       = initializeProgress [sepolia, mainnet]
   \<and> ready offlineEnv \<and> authenticated offlineEnv \<and> truthy (walletAddress offlineEnv)
   \<and> needsOnboarding (checkUserEffect offlineEnv [sepolia, mainnet] (freshSession [sepolia, mainnet]))"
proof -
  note t = fetch_null_means_needs_onboarding [where env = offlineEnv
             and chainsToSetup = "[sepolia, mainnet]" and st = "freshSession [sepolia, mainnet]"]
  note c = t [THEN conjunct2, THEN conjunct1, THEN mp, OF offline_fetch(2)]
  have g: "ready offlineEnv \<and> authenticated offlineEnv \<and> truthy (walletAddress offlineEnv)
      \<and> isModeValid (freshSession [sepolia, mainnet]) = Some True
      \<and> walletChoiceCompleted (freshSession [sepolia, mainnet])"
    by (simp add: offlineEnv_def happyEnv_def truthy_def freshSession_def)
  note e = t [THEN conjunct2, THEN conjunct2, THEN conjunct1, THEN mp, OF g,
              THEN conjunct2, THEN mp, OF offline_fetch(2)]
  have p: "progress (checkUser offlineEnv [sepolia, mainnet] (freshSession [sepolia, mainnet]))
       = initializeProgress [sepolia, mainnet]"
    using c [THEN conjunct2, THEN conjunct1] by (simp only: freshSession_fields)
  from offline_fetch c [THEN conjunct1] p g e show ?thesis by (intro conjI) simp_all
qed

text \<open>
  The claim as written fails in its first half: a transport error (the HTTP request itself
  throwing) yields the same null as a response that reports no record, so null does not
  single out ``no backend record yet''.
\<close>

theorem fetch_null_on_transport_error:
  "fetchUsersMe offlineEnv ''token'' = Rejects (ErrorObj ''Failed to fetch'')
   \<and> fetchUsersMe noRecordEnv ''token'' =
        Resolves \<lparr>ok = False, json = Resolves \<lparr>body_success = False, body_data = JsNull\<rparr>\<rparr>
   \<and> fst (fetchUserData offlineEnv) = JsNull
   \<and> fst (fetchUserData noRecordEnv) = JsNull
   \<and> fst (fetchUserData offlineEnv) = fst (fetchUserData noRecordEnv)"
  by (simp add: offline_fetch noRecord_fetch)

lemma hasWallet_iff: "hasWallet env user c \<longleftrightarrow> \<not> needsSetup env user c"
  by (simp add: hasWallet_def needsSetup_def Let_def split: option.splits)

lemma needsSetup_iff:
  "needsSetup env user c \<longleftrightarrow>
     (\<exists>i. getChain env (chainId c) = Some i \<and> isTestnet i \<and> \<not> truthy (testnetWallet user))
     \<or> (\<exists>i. getChain env (chainId c) = Some i \<and> \<not> isTestnet i \<and> \<not> truthy (mainnetWallet user))
     \<or> getChain env (chainId c) = None"
  by (auto simp: needsSetup_def Let_def split: option.splits)

lemma initializeProgress_fold:
  "fold (\<lambda>chain prog. prog(id' chain \<mapsto> v)) cs m k
     = (if k \<in> id' ` set cs then Some v else m k)"
  by (induction cs arbitrary: m) auto

lemma initializeProgress_idle:
  "c \<in> set cs \<Longrightarrow> initializeProgress cs (id' c) = Some idleProgress"
  by (simp add: initializeProgress_def initializeProgress_fold)

lemma prefill_lookup:
  "prefill env user cs prev k
     = (if \<exists>c\<in>set cs. id' c = k \<and> hasWallet env user c then Some successProgress else prev k)"
  unfolding prefill_def
  by (induction cs arbitrary: prev) auto

lemma checkUser_existing:
  assumes "fst (fetchUserData env) \<noteq> JsNull"
  shows "needsOnboarding (checkUser env cs st)
           = (\<exists>c\<in>set cs. needsSetup env (fst (fetchUserData env)) c)"
    and "progress (checkUser env cs st)
           = (if \<exists>c\<in>set cs. needsSetup env (fst (fetchUserData env)) c
              then prefill env (fst (fetchUserData env)) cs (progress st) else progress st)"
  using assms
  by (auto simp: checkUser_def Let_def logCalls_def case_prod_unfold filter_empty_conv)

text \<open>
  Claim C8, as the code has it.  For a new user (the fetch returns null) needs-onboarding is
  true and, on the progress map as initialised for the configured chains, every configured
  chain is fully idle.  For any other result of the fetch (a record, or undefined when a
  success body has no record, whose wallet fields then read as missing) a chain requires
  setup iff the registry lists its numeric id as a testnet chain and no testnet wallet is
  recorded, or lists it as a mainnet chain and no mainnet wallet is recorded, or does not
  list it at all; needs-onboarding is true iff some configured chain requires setup.  If
  some chain requires setup, every configured chain that does not is pre-filled to
  all-success and the keys of no such chain are left as they were; if no chain requires
  setup, the progress map is left as it was.
\<close>

theorem determine_required_chains:
  "(fst (fetchUserData env) = JsNull \<longrightarrow>
      needsOnboarding (checkUser env cs (st\<lparr>progress := initializeProgress cs\<rparr>))
      \<and> (\<forall>c\<in>set cs. progress (checkUser env cs (st\<lparr>progress := initializeProgress cs\<rparr>)) (id' c)
                         = Some idleProgress))
   \<and> (fst (fetchUserData env) = user \<and> user \<noteq> JsNull \<longrightarrow>
      (\<forall>c. needsSetup env user c \<longleftrightarrow>
         (\<exists>i. getChain env (chainId c) = Some i \<and> isTestnet i
               \<and> \<not> truthy (testnetWallet user))
         \<or> (\<exists>i. getChain env (chainId c) = Some i \<and> \<not> isTestnet i
               \<and> \<not> truthy (mainnetWallet user))
         \<or> getChain env (chainId c) = None)
      \<and> (\<forall>u. user = JsUser u \<longrightarrow> testnetWallet user = safe_wallet_address_testnet u
                                  \<and> mainnetWallet user = safe_wallet_address_mainnet u)
      \<and> (user = JsUndefined \<longrightarrow> testnetWallet user = None \<and> mainnetWallet user = None)
      \<and> needsOnboarding (checkUser env cs st) = (\<exists>c\<in>set cs. needsSetup env user c)
      \<and> ((\<exists>c\<in>set cs. needsSetup env user c) \<longrightarrow>
            (\<forall>c\<in>set cs. \<not> needsSetup env user c \<longrightarrow>
                progress (checkUser env cs st) (id' c) = Some successProgress)
            \<and> (\<forall>k. (\<forall>c\<in>set cs. id' c = k \<longrightarrow> needsSetup env user c) \<longrightarrow>
                progress (checkUser env cs st) k = progress st k))
      \<and> ((\<forall>c\<in>set cs. \<not> needsSetup env user c) \<longrightarrow> progress (checkUser env cs st) = progress st))"
proof (intro conjI impI)
  assume n: "fst (fetchUserData env) = JsNull"
  show "needsOnboarding (checkUser env cs (st\<lparr>progress := initializeProgress cs\<rparr>))"
    using checkUser_new_user [OF n, of cs "st\<lparr>progress := initializeProgress cs\<rparr>"] by (simp only:)
  show "\<forall>c\<in>set cs. progress (checkUser env cs (st\<lparr>progress := initializeProgress cs\<rparr>)) (id' c)
                         = Some idleProgress"
  proof
    fix c
    assume "c \<in> set cs"
    then have "initializeProgress cs (id' c) = Some idleProgress"
      by (rule initializeProgress_idle)
    moreover have "progress (checkUser env cs (st\<lparr>progress := initializeProgress cs\<rparr>))
                     = initializeProgress cs"
      using checkUser_new_user [OF n, of cs "st\<lparr>progress := initializeProgress cs\<rparr>"] by simp
    ultimately show "progress (checkUser env cs (st\<lparr>progress := initializeProgress cs\<rparr>)) (id' c)
                         = Some idleProgress"
      by (simp only:)
  qed
next
  assume a: "fst (fetchUserData env) = user \<and> user \<noteq> JsNull"
  then have s: "fst (fetchUserData env) \<noteq> JsNull" and u: "fst (fetchUserData env) = user"
    by simp_all
  show "\<forall>c. needsSetup env user c \<longleftrightarrow>
         (\<exists>i. getChain env (chainId c) = Some i \<and> isTestnet i
               \<and> \<not> truthy (testnetWallet user))
         \<or> (\<exists>i. getChain env (chainId c) = Some i \<and> \<not> isTestnet i
               \<and> \<not> truthy (mainnetWallet user))
         \<or> getChain env (chainId c) = None"
    by (intro allI) (rule needsSetup_iff)
  show "\<forall>u. user = JsUser u \<longrightarrow> testnetWallet user = safe_wallet_address_testnet u
                                  \<and> mainnetWallet user = safe_wallet_address_mainnet u"
    by (simp add: testnetWallet_def mainnetWallet_def)
  show "testnetWallet user = None" "mainnetWallet user = None" if "user = JsUndefined"
    using that by (simp_all add: testnetWallet_def mainnetWallet_def)
  note ex = checkUser_existing [OF s, of cs st, unfolded u]
  show "needsOnboarding (checkUser env cs st) = (\<exists>c\<in>set cs. needsSetup env user c)"
    by (rule ex(1))
  have pr: "progress (checkUser env cs st) = prefill env user cs (progress st)"
    if "\<exists>c\<in>set cs. needsSetup env user c"
    using that by (simp only: ex(2) if_True)
  show "\<forall>c\<in>set cs. \<not> needsSetup env user c \<longrightarrow>
          progress (checkUser env cs st) (id' c) = Some successProgress"
    if e: "\<exists>c\<in>set cs. needsSetup env user c"
  proof (intro ballI impI)
    fix c
    assume c: "c \<in> set cs" "\<not> needsSetup env user c"
    then have "\<exists>c'\<in>set cs. id' c' = id' c \<and> hasWallet env user c'"
      using hasWallet_iff by blast
    then show "progress (checkUser env cs st) (id' c) = Some successProgress"
      by (simp only: pr [OF e] prefill_lookup if_True)
  qed
  show "\<forall>k. (\<forall>c\<in>set cs. id' c = k \<longrightarrow> needsSetup env user c) \<longrightarrow>
          progress (checkUser env cs st) k = progress st k"
    if e: "\<exists>c\<in>set cs. needsSetup env user c"
  proof (intro allI impI)
    fix k
    assume "\<forall>c\<in>set cs. id' c = k \<longrightarrow> needsSetup env user c"
    then have "\<not> (\<exists>c\<in>set cs. id' c = k \<and> hasWallet env user c)"
      using hasWallet_iff by blast
    then show "progress (checkUser env cs st) k = progress st k"
      by (simp only: pr [OF e] prefill_lookup if_False)
  qed
  show "progress (checkUser env cs st) = progress st"
    if "\<forall>c\<in>set cs. \<not> needsSetup env user c"
  proof -
    from that have "\<not> (\<exists>c\<in>set cs. needsSetup env user c)" by blast
    then show ?thesis by (simp only: ex(2) if_False)
  qed
qed

lemma happy_fetch: "fst (fetchUserData happyEnv) = JsUser someUser"
  by (simp add: fetchUserData_def happyEnv_def truthy_def)

lemma happy_needsSetup:
  "needsSetup happyEnv (JsUser someUser) mainnet" "\<not> needsSetup happyEnv (JsUser someUser) sepolia"
  by (simp_all add: needsSetup_def happyEnv_def registry_def someUser_def truthy_def
        testnetWallet_def mainnetWallet_def mainnet_def sepolia_def)

theorem determine_required_chains_witness:
  "fst (fetchUserData happyEnv) = JsUser someUser
   \<and> needsSetup happyEnv (JsUser someUser) mainnet \<and> \<not> needsSetup happyEnv (JsUser someUser) sepolia
   \<and> needsOnboarding (checkUser happyEnv [sepolia, mainnet] (freshSession [sepolia, mainnet]))
   \<and> progress (checkUser happyEnv [sepolia, mainnet] (freshSession [sepolia, mainnet])) ''sepolia''
       = Some successProgress
   \<and> progress (checkUser happyEnv [sepolia, mainnet] (freshSession [sepolia, mainnet])) ''mainnet''
       = Some idleProgress"
proof -
  have h: "fst (fetchUserData happyEnv) = JsUser someUser \<and> JsUser someUser \<noteq> JsNull"
    using happy_fetch by simp
  note t = determine_required_chains [where env = happyEnv and cs = "[sepolia, mainnet]"
             and user = "JsUser someUser" and st = "freshSession [sepolia, mainnet]",
             THEN conjunct2, THEN mp, OF h]
  note t4 = t [THEN conjunct2, THEN conjunct2, THEN conjunct2]
  have ex: "\<exists>c\<in>set [sepolia, mainnet]. needsSetup happyEnv (JsUser someUser) c"
    using happy_needsSetup(1) by simp
  have a: "needsOnboarding (checkUser happyEnv [sepolia, mainnet] (freshSession [sepolia, mainnet]))"
    using t4 [THEN conjunct1] ex by (simp only:)
  note pre = t4 [THEN conjunct2, THEN conjunct1, THEN mp, OF ex]
  have m: "sepolia \<in> set [sepolia, mainnet]" by simp
  have "progress (checkUser happyEnv [sepolia, mainnet] (freshSession [sepolia, mainnet])) (id' sepolia)
       = Some successProgress"
    using pre [THEN conjunct1, THEN bspec, OF m, THEN mp, OF happy_needsSetup(2)] .
  then have b: "progress (checkUser happyEnv [sepolia, mainnet] (freshSession [sepolia, mainnet])) ''sepolia''
       = Some successProgress"
    by (simp only: sepolia_fields)
  have k: "\<forall>c\<in>set [sepolia, mainnet]. id' c = ''mainnet'' \<longrightarrow> needsSetup happyEnv (JsUser someUser) c"
    using happy_needsSetup(1) by (simp add: sepolia_fields)
  have "progress (checkUser happyEnv [sepolia, mainnet] (freshSession [sepolia, mainnet])) ''mainnet''
       = progress (freshSession [sepolia, mainnet]) ''mainnet''"
    using pre [THEN conjunct2, THEN spec, of "''mainnet''", THEN mp, OF k] .
  then have c: "progress (checkUser happyEnv [sepolia, mainnet] (freshSession [sepolia, mainnet])) ''mainnet''
       = Some idleProgress"
    by (simp only: freshSession_fields initializeProgress_two)
  from happy_fetch happy_needsSetup a b c show ?thesis by (intro conjI)
qed

text \<open>A success body without a record is not a new user: the fetch gives undefined, the
  check takes the existing-user branch, and with no chain configured needs-onboarding ends
  false; with chains configured every chain requires setup.\<close>

lemma undefined_user_is_existing:
  "fst (fetchUserData emptyBodyEnv) = JsUndefined
   \<and> \<not> needsOnboarding (checkUser emptyBodyEnv [] (freshSession []))
   \<and> needsSetup emptyBodyEnv JsUndefined sepolia \<and> needsSetup emptyBodyEnv JsUndefined mainnet"
proof -
  have f: "fst (fetchUserData emptyBodyEnv) = JsUndefined"
    by (simp add: fetchUserData_def emptyBodyEnv_def happyEnv_def truthy_def)
  then have n: "fst (fetchUserData emptyBodyEnv) \<noteq> JsNull" by simp
  have "needsSetup emptyBodyEnv JsUndefined sepolia" "needsSetup emptyBodyEnv JsUndefined mainnet"
    by (simp_all add: needsSetup_def emptyBodyEnv_def happyEnv_def registry_def truthy_def
          testnetWallet_def mainnetWallet_def mainnet_def sepolia_def)
  with f show ?thesis
    by (simp add: checkUser_existing(1) [OF n])
qed

text \<open>
  The claim as written fails.  With only mainnet configured and a mainnet wallet recorded,
  the chain does not require setup, yet its entry is left idle: the pre-fill runs only when
  some chain requires setup.  And a chain whose numeric id the registry does not list
  requires setup although it is a mainnet chain by its own flag and a mainnet wallet is
  recorded.
\<close>

theorem complete_user_left_idle:
  "fst (fetchUserData mainnetUserEnv) = JsUser mainnetUser
   \<and> truthy (safe_wallet_address_mainnet mainnetUser)
   \<and> \<not> needsSetup mainnetUserEnv (JsUser mainnetUser) mainnet
   \<and> \<not> needsOnboarding (checkUser mainnetUserEnv [mainnet] (freshSession [mainnet]))
   \<and> progress (checkUser mainnetUserEnv [mainnet] (freshSession [mainnet])) ''mainnet''
       = Some idleProgress
   \<and> \<not> isTestnet unlistedChain
   \<and> needsSetup mainnetUserEnv (JsUser mainnetUser) unlistedChain"
proof -
  have f: "fst (fetchUserData mainnetUserEnv) = JsUser mainnetUser"
    by (simp add: fetchUserData_def mainnetUserEnv_def happyEnv_def truthy_def)
  then have nn: "fst (fetchUserData mainnetUserEnv) \<noteq> JsNull" by simp
  have w: "truthy (safe_wallet_address_mainnet mainnetUser)"
    by (simp add: mainnetUser_def someUser_def truthy_def)
  have n: "\<not> needsSetup mainnetUserEnv (JsUser mainnetUser) mainnet"
    using w by (simp add: needsSetup_def mainnetUserEnv_def happyEnv_def registry_def mainnet_def
                  mainnetWallet_def)
  have u: "needsSetup mainnetUserEnv (JsUser mainnetUser) unlistedChain" "\<not> isTestnet unlistedChain"
    by (simp_all add: needsSetup_def mainnetUserEnv_def happyEnv_def registry_def unlistedChain_def)
  have i: "initializeProgress [mainnet] ''mainnet'' = Some idleProgress"
    by (simp add: initializeProgress_def mainnet_fields)
  have "\<not> needsOnboarding (checkUser mainnetUserEnv [mainnet] (freshSession [mainnet]))"
       "progress (checkUser mainnetUserEnv [mainnet] (freshSession [mainnet])) ''mainnet''
          = Some idleProgress"
    using n by (simp_all add: checkUser_existing [OF nn] f freshSession_fields i)
  with f w n u show ?thesis by simp
qed

end
